theory Spec2Isabelle
  imports Complex_Main
begin

section \<open>Errors\<close>

text \<open>
  Every exception class raised in \<^verbatim>\<open>input_constructors.py\<close> is a constructor carrying
  the message. \<open>RuntimeErrorIndices\<close> is the \<^verbatim>\<open>RuntimeError\<close> of
  \<^verbatim>\<open>construct_inputs_mf_base\<close>, whose message interpolates the two key sets; the sets
  are kept as data instead of being rendered. \<open>IndexError\<close> and \<open>ValueError\<close> are
  also what Python and torch raise on a bad index, a bad unpacking or a reduction
  over an empty dimension, \<open>TypeError\<close> what Python raises on an operand of the
  wrong type.
\<close>

datatype error =
    RuntimeError string
  | RuntimeErrorIndices "int set" "int set"
  | ValueError string
  | NotImplementedError string
  | UnsupportedError string
  | IndexError string
  | TypeError string

section \<open>The registry of input constructors\<close>

text \<open>
  The acquisition-function classes imported by the module, and any other class.
  \<open>cls_name\<close> is the class attribute \<^verbatim>\<open>__name__\<close>.
\<close>

datatype acqf_cls =
    PosteriorMean
  | ExpectedImprovement
  | ProbabilityOfImprovement
  | UpperConfidenceBound
  | ConstrainedExpectedImprovement
  | NoisyExpectedImprovement
  | qSimpleRegret
  | qExpectedImprovement
  | qNoisyExpectedImprovement
  | qProbabilityOfImprovement
  | qUpperConfidenceBound
  | ExpectedHypervolumeImprovement
  | qExpectedHypervolumeImprovement
  | qNoisyExpectedHypervolumeImprovement
  | qMaxValueEntropy
  | qKnowledgeGradient
  | qMultiFidelityKnowledgeGradient
  | qMultiFidelityMaxValueEntropy
  | OtherAcqf string

fun cls_name :: "acqf_cls \<Rightarrow> string" where
  "cls_name PosteriorMean = ''PosteriorMean''"
| "cls_name ExpectedImprovement = ''ExpectedImprovement''"
| "cls_name ProbabilityOfImprovement = ''ProbabilityOfImprovement''"
| "cls_name UpperConfidenceBound = ''UpperConfidenceBound''"
| "cls_name ConstrainedExpectedImprovement = ''ConstrainedExpectedImprovement''"
| "cls_name NoisyExpectedImprovement = ''NoisyExpectedImprovement''"
| "cls_name qSimpleRegret = ''qSimpleRegret''"
| "cls_name qExpectedImprovement = ''qExpectedImprovement''"
| "cls_name qNoisyExpectedImprovement = ''qNoisyExpectedImprovement''"
| "cls_name qProbabilityOfImprovement = ''qProbabilityOfImprovement''"
| "cls_name qUpperConfidenceBound = ''qUpperConfidenceBound''"
| "cls_name ExpectedHypervolumeImprovement = ''ExpectedHypervolumeImprovement''"
| "cls_name qExpectedHypervolumeImprovement = ''qExpectedHypervolumeImprovement''"
| "cls_name qNoisyExpectedHypervolumeImprovement = ''qNoisyExpectedHypervolumeImprovement''"
| "cls_name qMaxValueEntropy = ''qMaxValueEntropy''"
| "cls_name qKnowledgeGradient = ''qKnowledgeGradient''"
| "cls_name qMultiFidelityKnowledgeGradient = ''qMultiFidelityKnowledgeGradient''"
| "cls_name qMultiFidelityMaxValueEntropy = ''qMultiFidelityMaxValueEntropy''"
| "cls_name (OtherAcqf n) = n"

text \<open>
  \<^verbatim>\<open>ACQF_INPUT_CONSTRUCTOR_REGISTRY\<close> is a module-level dict from classes to functions.
  The functions that change it take the registry and return the new one, also when
  they raise: the dict keeps whatever was written before the exception.
\<close>

type_synonym 'f registry = "acqf_cls \<rightharpoonup> 'f"

definition not_registered_msg :: "acqf_cls \<Rightarrow> string" where
  "not_registered_msg c =
     ''Input constructor for acquisition class `'' @ cls_name c @ ''` not '' @
     ''registered. Use the `@acqf_input_constructor` decorator to register '' @
     ''a new method.''"

definition get_acqf_input_constructor :: "acqf_cls \<Rightarrow> 'f registry \<Rightarrow> error + 'f" where
  "get_acqf_input_constructor c reg =
     (case reg c of
        None \<Rightarrow> Inl (RuntimeError (not_registered_msg c))
      | Some f \<Rightarrow> Inr f)"

definition register_acqf_input_constructor :: "acqf_cls \<Rightarrow> 'f \<Rightarrow> 'f registry \<Rightarrow> 'f registry" where
  "register_acqf_input_constructor c input_constructor reg = reg(c \<mapsto> input_constructor)"

definition duplicate_msg :: "acqf_cls \<Rightarrow> string" where
  "duplicate_msg c =
     ''Cannot register duplicate arg constructor for acquisition '' @
     ''class `'' @ cls_name c @ ''`''"

text \<open>The first loop of \<^verbatim>\<open>acqf_input_constructor\<close>: it raises at the first class of the
  argument list that the registry already holds.\<close>

fun check_duplicates :: "acqf_cls list \<Rightarrow> 'f registry \<Rightarrow> error option" where
  "check_duplicates [] reg = None"
| "check_duplicates (c # cs) reg =
     (if reg c \<noteq> None then Some (ValueError (duplicate_msg c))
      else check_duplicates cs reg)"

text \<open>The inner function \<^verbatim>\<open>decorator\<close>: for each class it calls
  \<^verbatim>\<open>_register_acqf_input_constructor\<close> and then assigns the entry once more. It checks
  nothing and returns the method.\<close>

fun decorator :: "acqf_cls list \<Rightarrow> 'f \<Rightarrow> 'f registry \<Rightarrow> 'f \<times> 'f registry" where
  "decorator [] method reg = (method, reg)"
| "decorator (c # cs) method reg =
     decorator cs method ((register_acqf_input_constructor c method reg)(c \<mapsto> method))"

definition acqf_input_constructor ::
  "acqf_cls list \<Rightarrow> 'f registry \<Rightarrow> error + ('f \<Rightarrow> 'f registry \<Rightarrow> 'f \<times> 'f registry)" where
  "acqf_input_constructor acqf_clss reg =
     (case check_duplicates acqf_clss reg of
        Some e \<Rightarrow> Inl e
      | None \<Rightarrow> Inr (decorator acqf_clss))"

text \<open>A decorated definition \<^verbatim>\<open>@acqf_input_constructor(*classes) def method ...\<close>:
  Python evaluates the decorator expression and applies its result to the function.\<close>

definition decorated_def ::
  "acqf_cls list \<Rightarrow> 'f \<Rightarrow> 'f registry \<Rightarrow> (error + 'f) \<times> 'f registry" where
  "decorated_def acqf_clss method reg =
     (case acqf_input_constructor acqf_clss reg of
        Inl e \<Rightarrow> (Inl e, reg)
      | Inr dec \<Rightarrow> (case dec method reg of (m, reg') \<Rightarrow> (Inr m, reg')))"

text \<open>A module is a sequence of decorated definitions, run in order; the first
  exception ends the import.\<close>

fun load_definitions ::
  "(acqf_cls list \<times> 'f) list \<Rightarrow> 'f registry \<Rightarrow> (error + unit) \<times> 'f registry" where
  "load_definitions [] reg = (Inr (), reg)"
| "load_definitions ((cs, m) # ds) reg =
     (case decorated_def cs m reg of
        (Inl e, reg') \<Rightarrow> (Inl e, reg')
      | (Inr _, reg') \<Rightarrow> load_definitions ds reg')"

text \<open>The names of the functions the module registers, and its decorated
  definitions in source order.\<close>

datatype input_constructor =
    Fn_analytic_base | Fn_best_f | Fn_ucb | Fn_constrained_ei | Fn_noisy_ei
  | Fn_mc_base | Fn_qEI | Fn_qNEI | Fn_qPI | Fn_qUCB | Fn_EHVI | Fn_qEHVI
  | Fn_qNEHVI | Fn_qMES | Fn_qKG | Fn_qMFKG | Fn_qMFMES

definition module_definitions :: "(acqf_cls list \<times> input_constructor) list" where
  "module_definitions =
     [([PosteriorMean], Fn_analytic_base),
      ([ExpectedImprovement, ProbabilityOfImprovement], Fn_best_f),
      ([UpperConfidenceBound], Fn_ucb),
      ([ConstrainedExpectedImprovement], Fn_constrained_ei),
      ([NoisyExpectedImprovement], Fn_noisy_ei),
      ([qSimpleRegret], Fn_mc_base),
      ([qExpectedImprovement], Fn_qEI),
      ([qNoisyExpectedImprovement], Fn_qNEI),
      ([qProbabilityOfImprovement], Fn_qPI),
      ([qUpperConfidenceBound], Fn_qUCB),
      ([ExpectedHypervolumeImprovement], Fn_EHVI),
      ([qExpectedHypervolumeImprovement], Fn_qEHVI),
      ([qNoisyExpectedHypervolumeImprovement], Fn_qNEHVI),
      ([qMaxValueEntropy], Fn_qMES),
      ([qKnowledgeGradient], Fn_qKG),
      ([qMultiFidelityKnowledgeGradient], Fn_qMFKG),
      ([qMultiFidelityMaxValueEntropy], Fn_qMFMES)]"

definition ACQF_INPUT_CONSTRUCTOR_REGISTRY :: "input_constructor registry" where
  "ACQF_INPUT_CONSTRUCTOR_REGISTRY = snd (load_definitions module_definitions Map.empty)"

section \<open>Tensors\<close>

text \<open>
  A torch tensor is its shape and its entries in row-major order. Entries are read as
  real numbers, so a NaN entry is outside the model. \<open>wf_tensor\<close> says that the
  number of entries is the product of the shape.
\<close>

datatype 'a tensor = Tensor (shape: "nat list") (data: "'a list")

definition wf_tensor :: "'a tensor \<Rightarrow> bool" where
  "wf_tensor t \<longleftrightarrow> length (data t) = prod_list (shape t)"

text \<open>\<open>rows n k xs\<close> cuts the first \<open>n\<close> consecutive blocks of length \<open>k\<close> from \<open>xs\<close>.\<close>

primrec rows :: "nat \<Rightarrow> nat \<Rightarrow> 'a list \<Rightarrow> 'a list list" where
  "rows 0 k xs = []"
| "rows (Suc n) k xs = take k xs # rows n k (drop k xs)"

text \<open>The maximum of a non-empty list. The reductions below apply it to the blocks of
  a non-empty dimension, which are non-empty in a well-formed tensor.\<close>

fun list_max :: "real list \<Rightarrow> real" where
  "list_max [] = 0"
| "list_max [x] = x"
| "list_max (x # y # ys) = max x (list_max (y # ys))"

text \<open>\<^verbatim>\<open>t.shape[-1]\<close> and \<^verbatim>\<open>t.shape[0]\<close>: indexing the empty shape of a 0-dim tensor
  raises \<^verbatim>\<open>IndexError\<close>.\<close>

definition shape_m1 :: "'a tensor \<Rightarrow> error + nat" where
  "shape_m1 t =
     (case shape t of
        [] \<Rightarrow> Inl (IndexError ''tuple index out of range'')
      | _ # _ \<Rightarrow> Inr (last (shape t)))"

definition shape_0 :: "'a tensor \<Rightarrow> error + nat" where
  "shape_0 t =
     (case shape t of
        [] \<Rightarrow> Inl (IndexError ''tuple index out of range'')
      | n # _ \<Rightarrow> Inr n)"

text \<open>\<^verbatim>\<open>t.max(-1).values\<close>: the maximum along the last dimension. torch accepts
  \<open>dim = -1\<close> on a 0-dim tensor and raises when the reduced dimension is empty.\<close>

definition max_m1 :: "real tensor \<Rightarrow> error + real tensor" where
  "max_m1 t =
     (case shape t of
        [] \<Rightarrow> Inr t
      | _ # _ \<Rightarrow>
          (if last (shape t) = 0
           then Inl (IndexError ''max(): Expected reduction dim to have non-zero size.'')
           else Inr (Tensor (butlast (shape t))
                  (map list_max
                     (rows (prod_list (butlast (shape t))) (last (shape t)) (data t))))))"

text \<open>\<^verbatim>\<open>t.max(-2).values\<close>: the maximum along the last dimension but one. For a
  shape \<open>bs @ [n, m]\<close> each block of \<open>n * m\<close> entries gives the \<open>m\<close> column maxima.\<close>

definition col_maxes :: "nat \<Rightarrow> nat \<Rightarrow> real list \<Rightarrow> real list" where
  "col_maxes n m block = map (\<lambda>j. list_max (map (\<lambda>i. block ! (i * m + j)) [0..<n])) [0..<m]"

definition max_m2 :: "real tensor \<Rightarrow> error + real tensor" where
  "max_m2 t =
     (if length (shape t) < 2
      then Inl (IndexError ''Dimension out of range'')
      else
        (let bs = butlast (butlast (shape t));
             n = last (butlast (shape t));
             m = last (shape t)
         in if n = 0
            then Inl (IndexError ''max(): Expected reduction dim to have non-zero size.'')
            else Inr (Tensor (bs @ [m])
                   (concat (map (col_maxes n m) (rows (prod_list bs) (n * m) (data t)))))))"

text \<open>\<^verbatim>\<open>t.squeeze(-1)\<close> drops the last dimension when its size is 1.\<close>

definition squeeze_m1 :: "'a tensor \<Rightarrow> 'a tensor" where
  "squeeze_m1 t =
     (if shape t \<noteq> [] \<and> last (shape t) = 1 then Tensor (butlast (shape t)) (data t) else t)"

text \<open>\<^verbatim>\<open>t[..., j]\<close>: entry \<open>j\<close> along the last dimension.\<close>

definition select_m1 :: "nat \<Rightarrow> 'a tensor \<Rightarrow> error + 'a tensor" where
  "select_m1 j t =
     (case shape t of
        [] \<Rightarrow> Inl (IndexError ''too many indices for tensor of dimension 0'')
      | _ # _ \<Rightarrow>
          (if last (shape t) \<le> j
           then Inl (IndexError ''index is out of bounds'')
           else Inr (Tensor (butlast (shape t))
                  (map (\<lambda>r. r ! j)
                     (rows (prod_list (butlast (shape t))) (last (shape t)) (data t))))))"

section \<open>The collaborators' objects\<close>

text \<open>
  Modelled from the spec: the classes below are defined in modules of the package that
  are not among the sources (\<^verbatim>\<open>botorch.utils.containers\<close>,
  \<^verbatim>\<open>botorch.acquisition.objective\<close>, \<^verbatim>\<open>botorch.models\<close>, \<^verbatim>\<open>botorch.sampling\<close>,
  \<^verbatim>\<open>botorch.acquisition.cost_aware\<close>, \<^verbatim>\<open>botorch.utils.multi_objective\<close>). The spec
  describes them as opaque capabilities behind narrow interfaces: a training-data
  object exposing input/outcome tensors and a block-design flag, a model exposing a
  posterior query, an objective that is absent, scalarizing, or some other transform.
  A method whose body is not available is a function field that may raise; a
  constructor whose body is not available is a datatype constructor recording its
  arguments.
\<close>

record training_data =
  is_block_design :: bool
  X :: "real tensor"
  Y :: "real tensor"

datatype model = Model (posterior_mean: "real tensor \<Rightarrow> error + real tensor")

text \<open>An objective is a \<^verbatim>\<open>ScalarizedObjective\<close> (with its \<^verbatim>\<open>evaluate\<close> method), an
  \<^verbatim>\<open>MCAcquisitionObjective\<close>, or another \<^verbatim>\<open>AcquisitionObjective\<close>; \<open>call\<close> is the
  object applied to a tensor.\<close>

datatype objective =
    ScalarizedObjective (evaluate: "real tensor \<Rightarrow> error + real tensor")
      (call: "real tensor \<Rightarrow> error + real tensor")
  | MCAcquisitionObjective (call: "real tensor \<Rightarrow> error + real tensor")
  | OtherObjective (call: "real tensor \<Rightarrow> error + real tensor")

text \<open>Modelled from the spec: \<^verbatim>\<open>IdentityMCObjective\<close> ("identity objective" on
  single-output samples; it drops the output dimension) and
  \<^verbatim>\<open>IdentityAnalyticMultiOutputObjective\<close> (the identity).\<close>

definition IdentityMCObjective :: objective where
  "IdentityMCObjective = MCAcquisitionObjective (\<lambda>samples. Inr (squeeze_m1 samples))"

definition IdentityAnalyticMultiOutputObjective :: objective where
  "IdentityAnalyticMultiOutputObjective = OtherObjective (\<lambda>t. Inr t)"

datatype sampler =
    SobolQMCNormalSampler (sampler_num_samples: int) (sampler_seed: "int option")
  | IIDNormalSampler (sampler_num_samples: int) (sampler_seed: "int option")

datatype cost_model =
  AffineFidelityCostModel (cm_fidelity_weights: "(int \<times> real) list") (cm_fixed_cost: real)

datatype cost_aware_utility = InverseCostWeightedUtility (cost_model: cost_model)

text \<open>The two lambdas that \<^verbatim>\<open>construct_inputs_mf_base\<close> returns, each with the values
  of the variables it captures.\<close>

datatype closure =
    Expand_lambda (captured_target_fidelities: "(int \<times> real) list")
      (captured_num_trace_observations: int)
  | Project_lambda (captured_target_fidelities: "(int \<times> real) list")

text \<open>Python values of type \<^verbatim>\<open>Any\<close>: what a keyword dictionary or a returned bundle
  can hold. \<open>PObject\<close> is any other object, by identity.\<close>

datatype pyval =
    PNone
  | PBool bool
  | PInt int
  | PFloat real
  | PStr string
  | PTensor "real tensor"
  | PModel model
  | PObjective objective
  | PSampler sampler
  | PPartitioning partitioning
  | PClosure closure
  | PDict "(int \<times> real) list"
  | PUtility cost_aware_utility
  | PObject nat
and partitioning =
    NondominatedPartitioning (part_ref_point: "real tensor") (part_Y: "real tensor")
      (part_alpha: pyval)
  | FastNondominatedPartitioning (part_ref_point: "real tensor") (part_Y: "real tensor")

type_synonym kwargs = "string \<rightharpoonup> pyval"

text \<open>\<^verbatim>\<open>d.get(key, default)\<close>. Python evaluates the default before the call, so a
  caller whose default may raise handles the error first.\<close>

definition dict_get :: "kwargs \<Rightarrow> string \<Rightarrow> pyval \<Rightarrow> pyval" where
  "dict_get d key dflt = (case d key of None \<Rightarrow> dflt | Some v \<Rightarrow> v)"

definition py_opt :: "('a \<Rightarrow> pyval) \<Rightarrow> 'a option \<Rightarrow> pyval" where
  "py_opt f v = (case v of None \<Rightarrow> PNone | Some a \<Rightarrow> f a)"

section \<open>Best observed value\<close>

definition block_design_msg :: string where
  "block_design_msg = ''Currently only block designs are supported.''"

definition get_best_f_analytic :: "training_data \<Rightarrow> objective option \<Rightarrow> error + real tensor" where
  "get_best_f_analytic training_data objective =
     (if \<not> is_block_design training_data
      then Inl (NotImplementedError block_design_msg)
      else
        (case objective of
           Some (ScalarizedObjective ev _) \<Rightarrow>
             (case ev (Y training_data) of
                Inl e \<Rightarrow> Inl e
              | Inr r \<Rightarrow> max_m1 r)
         | _ \<Rightarrow>
             (case shape_m1 (Y training_data) of
                Inl e \<Rightarrow> Inl e
              | Inr m \<Rightarrow>
                  if m > 1
                  then Inl (NotImplementedError
                    (''Analytic acquisition functions currently only work with '' @
                     ''multi-output models if provided with a `ScalarizedObjective`.''))
                  else
                    (case max_m2 (Y training_data) of
                       Inl e \<Rightarrow> Inl e
                     | Inr r \<Rightarrow> Inr (squeeze_m1 r)))))"

definition get_best_f_mc :: "training_data \<Rightarrow> objective option \<Rightarrow> error + real tensor" where
  "get_best_f_mc training_data objective =
     (if \<not> is_block_design training_data
      then Inl (NotImplementedError block_design_msg)
      else
        (case (case objective of
                 None \<Rightarrow>
                   (case shape_m1 (Y training_data) of
                      Inl e \<Rightarrow> Inl e
                    | Inr m \<Rightarrow>
                        if m > 1
                        then Inl (UnsupportedError
                          (''Acquisition functions require an objective when '' @
                           ''used with multi-output models (execpt for multi-objective'' @
                           ''acquisition functions).''))
                        else Inr IdentityMCObjective)
               | Some obj \<Rightarrow> Inr obj) of
           Inl e \<Rightarrow> Inl e
         | Inr obj \<Rightarrow>
             (case call obj (Y training_data) of
                Inl e \<Rightarrow> Inl e
              | Inr r \<Rightarrow> max_m1 r)))"

section \<open>Input constructors\<close>

definition construct_inputs_analytic_base ::
  "model \<Rightarrow> training_data \<Rightarrow> objective option \<Rightarrow> kwargs \<Rightarrow> kwargs" where
  "construct_inputs_analytic_base model training_data objective kw =
     [''model'' \<mapsto> PModel model, ''objective'' \<mapsto> py_opt PObjective objective]"

definition construct_inputs_best_f ::
  "model \<Rightarrow> training_data \<Rightarrow> objective option \<Rightarrow> bool \<Rightarrow> kwargs \<Rightarrow> error + kwargs" where
  "construct_inputs_best_f model training_data objective maximize kw =
     (let base_inputs = construct_inputs_analytic_base model training_data objective Map.empty
      in case get_best_f_analytic training_data objective of
           Inl e \<Rightarrow> Inl e
         | Inr dflt \<Rightarrow>
             (let best_f = dict_get kw ''best_f'' (PTensor dflt)
              in Inr (base_inputs(''best_f'' \<mapsto> best_f, ''maximize'' \<mapsto> PBool maximize))))"

definition construct_inputs_ucb ::
  "model \<Rightarrow> training_data \<Rightarrow> objective option \<Rightarrow> pyval \<Rightarrow> bool \<Rightarrow> kwargs \<Rightarrow> kwargs" where
  "construct_inputs_ucb model training_data objective beta maximize kw =
     (let base_inputs = construct_inputs_analytic_base model training_data objective Map.empty
      in base_inputs(''beta'' \<mapsto> beta, ''maximize'' \<mapsto> PBool maximize))"

definition construct_inputs_constrained_ei ::
  "model \<Rightarrow> training_data \<Rightarrow> int \<Rightarrow> pyval \<Rightarrow> bool \<Rightarrow> kwargs \<Rightarrow> error + kwargs" where
  "construct_inputs_constrained_ei model training_data objective_index constraints maximize kw =
     Inl (NotImplementedError [])"

definition construct_inputs_noisy_ei ::
  "model \<Rightarrow> training_data \<Rightarrow> int \<Rightarrow> bool \<Rightarrow> kwargs \<Rightarrow> error + kwargs" where
  "construct_inputs_noisy_ei model training_data num_fantasies maximize kw =
     (if \<not> is_block_design training_data
      then Inl (NotImplementedError ''Currently only block designs are supported'')
      else Inr [''model'' \<mapsto> PModel model,
                ''X_observed'' \<mapsto> PTensor (X training_data),
                ''num_fantasies'' \<mapsto> PInt num_fantasies,
                ''maximize'' \<mapsto> PBool maximize])"

definition construct_inputs_mc_base ::
  "model \<Rightarrow> training_data \<Rightarrow> objective option \<Rightarrow> real tensor option \<Rightarrow> sampler option \<Rightarrow>
   kwargs \<Rightarrow> kwargs" where
  "construct_inputs_mc_base model training_data objective X_pending sampler kw =
     [''model'' \<mapsto> PModel model,
      ''objective'' \<mapsto> py_opt PObjective objective,
      ''X_pending'' \<mapsto> py_opt PTensor X_pending,
      ''sampler'' \<mapsto> py_opt PSampler sampler]"

definition construct_inputs_qEI ::
  "model \<Rightarrow> training_data \<Rightarrow> objective option \<Rightarrow> real tensor option \<Rightarrow> sampler option \<Rightarrow>
   kwargs \<Rightarrow> error + kwargs" where
  "construct_inputs_qEI model training_data objective X_pending sampler kw =
     (let base_inputs =
            construct_inputs_mc_base model training_data objective X_pending sampler Map.empty
      in case get_best_f_mc training_data objective of
           Inl e \<Rightarrow> Inl e
         | Inr dflt \<Rightarrow>
             (let best_f = dict_get kw ''best_f'' (PTensor dflt)
              in Inr (base_inputs(''best_f'' \<mapsto> best_f))))"

definition construct_inputs_qNEI ::
  "model \<Rightarrow> training_data \<Rightarrow> objective option \<Rightarrow> real tensor option \<Rightarrow> sampler option \<Rightarrow>
   real tensor option \<Rightarrow> bool \<Rightarrow> kwargs \<Rightarrow> error + kwargs" where
  "construct_inputs_qNEI model training_data objective X_pending sampler X_baseline
     prune_baseline kw =
     (let base_inputs =
            construct_inputs_mc_base model training_data objective X_pending sampler Map.empty
      in case (case X_baseline of
                 None \<Rightarrow>
                   if \<not> is_block_design training_data
                   then Inl (NotImplementedError block_design_msg)
                   else Inr (X training_data)
               | Some xb \<Rightarrow> Inr xb) of
           Inl e \<Rightarrow> Inl e
         | Inr xb \<Rightarrow>
             Inr (base_inputs(''X_baseline'' \<mapsto> PTensor xb,
                              ''prune_baseline'' \<mapsto> PBool prune_baseline)))"

definition construct_inputs_qPI ::
  "model \<Rightarrow> training_data \<Rightarrow> objective option \<Rightarrow> real tensor option \<Rightarrow> sampler option \<Rightarrow>
   real \<Rightarrow> pyval \<Rightarrow> kwargs \<Rightarrow> error + kwargs" where
  "construct_inputs_qPI model training_data objective X_pending sampler tau best_f kw =
     (let base_inputs =
            construct_inputs_mc_base model training_data objective X_pending sampler Map.empty
      in case (if best_f = PNone
               then (case get_best_f_mc training_data objective of
                       Inl e \<Rightarrow> Inl e
                     | Inr r \<Rightarrow> Inr (PTensor r))
               else Inr best_f) of
           Inl e \<Rightarrow> Inl e
         | Inr bf \<Rightarrow> Inr (base_inputs(''tau'' \<mapsto> PFloat tau, ''best_f'' \<mapsto> bf)))"

definition construct_inputs_qUCB ::
  "model \<Rightarrow> training_data \<Rightarrow> objective option \<Rightarrow> real tensor option \<Rightarrow> sampler option \<Rightarrow>
   real \<Rightarrow> kwargs \<Rightarrow> kwargs" where
  "construct_inputs_qUCB model training_data objective X_pending sampler beta kw =
     (let base_inputs =
            construct_inputs_mc_base model training_data objective X_pending sampler Map.empty
      in base_inputs(''beta'' \<mapsto> PFloat beta))"

section \<open>Multi-fidelity base inputs\<close>

text \<open>
  A Python dict with integer keys is an association list in insertion order (keys
  distinct). \<^verbatim>\<open>set(d)\<close> is the set of its keys and \<^verbatim>\<open>sorted(d)\<close> the sorted list of
  its keys.
\<close>

definition key_set :: "(int \<times> 'v) list \<Rightarrow> int set" where
  "key_set d = set (map fst d)"

definition sorted_keys :: "(int \<times> 'v) list \<Rightarrow> int list" where
  "sorted_keys d = sort (map fst d)"

text \<open>Modelled from the spec: \<^verbatim>\<open>expand_trace_observations\<close> and
  \<^verbatim>\<open>project_to_target_fidelity\<close> of \<^verbatim>\<open>botorch.acquisition.utils\<close> are not among the
  sources ("one expanding a candidate batch with trace observations at lower
  fidelities, one projecting a candidate to the target fidelity"); they are
  parameters of the call of a stored lambda. The first lambda sorts the keys when it
  is called.\<close>

fun call_closure ::
  "(real tensor \<Rightarrow> int list \<Rightarrow> int \<Rightarrow> error + real tensor) \<Rightarrow>
   (real tensor \<Rightarrow> (int \<times> real) list \<Rightarrow> error + real tensor) \<Rightarrow>
   closure \<Rightarrow> real tensor \<Rightarrow> error + real tensor" where
  "call_closure expand_trace_observations project_to_target_fidelity (Expand_lambda tf n) x =
     expand_trace_observations x (sorted_keys tf) n"
| "call_closure expand_trace_observations project_to_target_fidelity (Project_lambda tf) x =
     project_to_target_fidelity x tf"

definition construct_inputs_mf_base ::
  "model \<Rightarrow> training_data \<Rightarrow> (int \<times> real) list \<Rightarrow> (int \<times> real) list option \<Rightarrow> real \<Rightarrow> int \<Rightarrow>
   kwargs \<Rightarrow> error + kwargs" where
  "construct_inputs_mf_base model training_data target_fidelities fidelity_weights
     cost_intercept num_trace_observations ignore =
     (let fidelity_weights =
            (case fidelity_weights of
               None \<Rightarrow> map (\<lambda>f. (f, 1)) (map fst target_fidelities)
             | Some w \<Rightarrow> w)
      in if key_set target_fidelities \<noteq> key_set fidelity_weights
         then Inl (RuntimeErrorIndices (key_set target_fidelities) (key_set fidelity_weights))
         else
           (let cost_aware_utility =
                  InverseCostWeightedUtility
                    (AffineFidelityCostModel fidelity_weights cost_intercept)
            in Inr [''target_fidelities'' \<mapsto> PDict target_fidelities,
                    ''cost_aware_utility'' \<mapsto> PUtility cost_aware_utility,
                    ''expand'' \<mapsto>
                       PClosure (Expand_lambda target_fidelities num_trace_observations),
                    ''project'' \<mapsto> PClosure (Project_lambda target_fidelities)]))"

section \<open>Expected hypervolume improvement\<close>

text \<open>\<^verbatim>\<open>alpha > 0\<close> followed by the truth test of \<^verbatim>\<open>if\<close>, for a value of type
  \<^verbatim>\<open>Any\<close>: numbers compare, a tensor with one entry compares by that entry, a tensor
  with another number of entries has no truth value, and \<^verbatim>\<open>None\<close> or an object does
  not compare with an integer.\<close>

definition py_gt_zero :: "pyval \<Rightarrow> error + bool" where
  "py_gt_zero v =
     (case v of
        PFloat a \<Rightarrow> Inr (0 < a)
      | PInt i \<Rightarrow> Inr (0 < i)
      | PBool b \<Rightarrow> Inr b
      | PTensor t \<Rightarrow>
          (case data t of
             [a] \<Rightarrow> Inr (0 < a)
           | _ \<Rightarrow> Inl (RuntimeError ''Boolean value of Tensor is ambiguous''))
      | _ \<Rightarrow> Inl (TypeError ''> not supported between these instances''))"

text \<open>An objective applied to a value of type \<^verbatim>\<open>Any\<close>: objectives are modelled on
  tensors only.\<close>

definition call_any :: "objective \<Rightarrow> pyval \<Rightarrow> error + real tensor" where
  "call_any ob v =
     (case v of
        PTensor t \<Rightarrow> call ob t
      | _ \<Rightarrow> Inl (TypeError ''objective applied to a value that is not a tensor''))"

text \<open>\<^verbatim>\<open>get_default_partitioning_alpha\<close> of
  \<^verbatim>\<open>botorch.acquisition.multi_objective.utils\<close> is not among the sources and the spec
  does not describe it: it is the first parameter.\<close>

definition construct_inputs_EHVI ::
  "(nat \<Rightarrow> real) \<Rightarrow> model \<Rightarrow> training_data \<Rightarrow> real tensor \<Rightarrow> objective option \<Rightarrow> kwargs \<Rightarrow>
   error + kwargs" where
  "construct_inputs_EHVI get_default_partitioning_alpha model training_data
     objective_thresholds objective kw =
     (case shape_0 objective_thresholds of
        Inl e \<Rightarrow> Inl e
      | Inr num_objectives \<Rightarrow>
          if dict_get kw ''outcome_constraints'' PNone \<noteq> PNone
          then Inl (NotImplementedError ''EHVI does not yet support outcome constraints.'')
          else
            (let X_observed = X training_data;
                 alpha = dict_get kw ''alpha''
                           (PFloat (get_default_partitioning_alpha num_objectives));
                 objective = (case objective of
                                None \<Rightarrow> IdentityAnalyticMultiOutputObjective
                              | Some ob \<Rightarrow> ob)
             in case call objective objective_thresholds of
                  Inl e \<Rightarrow> Inl e
                | Inr ref_point \<Rightarrow>
                    (case (case dict_get kw ''Y_pmean'' PNone of
                             PNone \<Rightarrow>
                               (case posterior_mean model X_observed of
                                  Inl e \<Rightarrow> Inl e
                                | Inr t \<Rightarrow> Inr (PTensor t))
                           | v \<Rightarrow> Inr v) of
                       Inl e \<Rightarrow> Inl e
                     | Inr Y_pmean \<Rightarrow>
                         (case py_gt_zero alpha of
                            Inl e \<Rightarrow> Inl e
                          | Inr positive \<Rightarrow>
                              (case call_any objective Y_pmean of
                                 Inl e \<Rightarrow> Inl e
                               | Inr obj_Y \<Rightarrow>
                                   (let partitioning =
                                          (if positive
                                           then NondominatedPartitioning ref_point obj_Y alpha
                                           else FastNondominatedPartitioning ref_point obj_Y)
                                    in Inr [''model'' \<mapsto> PModel model,
                                            ''ref_point'' \<mapsto> PTensor ref_point,
                                            ''partitioning'' \<mapsto> PPartitioning partitioning,
                                            ''objective'' \<mapsto> PObjective objective]))))))"

section \<open>Nested optimization of an objective\<close>

text \<open>\<^verbatim>\<open>k, d = A.shape\<close> raises \<^verbatim>\<open>ValueError\<close> unless the shape has two entries.\<close>

definition unpack2 :: "nat list \<Rightarrow> error + nat \<times> nat" where
  "unpack2 s =
     (case s of
        [k, d] \<Rightarrow> Inr (k, d)
      | [] \<Rightarrow> Inl (ValueError ''not enough values to unpack (expected 2, got 0)'')
      | [_] \<Rightarrow> Inl (ValueError ''not enough values to unpack (expected 2, got 1)'')
      | _ \<Rightarrow> Inl (ValueError ''too many values to unpack (expected 2)''))"

text \<open>Row \<open>i\<close> of a \<open>k \<times> d\<close> matrix, \<^verbatim>\<open>A[i, :]\<close>.\<close>

definition matrix_row :: "'a tensor \<Rightarrow> nat \<Rightarrow> nat \<Rightarrow> 'a list" where
  "matrix_row A d i = take d (drop (i * d) (data A))"

text \<open>\<^verbatim>\<open>row.nonzero(as_tuple=False).squeeze()\<close>: the positions of the nonzero entries as
  a \<open>z \<times> 1\<close> tensor, from which \<^verbatim>\<open>squeeze\<close> removes every dimension of size 1. Exactly
  one nonzero entry therefore gives a 0-dim tensor.\<close>

definition squeeze_all :: "'a tensor \<Rightarrow> 'a tensor" where
  "squeeze_all t = Tensor (filter (\<lambda>n. n \<noteq> 1) (shape t)) (data t)"

definition nonzero :: "real list \<Rightarrow> nat tensor" where
  "nonzero row =
     (let idx = filter (\<lambda>j. row ! j \<noteq> 0) [0..<length row]
      in Tensor [length idx, 1] idx)"

text \<open>\<^verbatim>\<open>A[i, indicies]\<close>: the entries of the row at the given positions, in the shape
  of the index tensor.\<close>

definition index_row :: "real list \<Rightarrow> nat tensor \<Rightarrow> real tensor" where
  "index_row row idx = Tensor (shape idx) (map (\<lambda>j. row ! j) (data idx))"

definition neg :: "real tensor \<Rightarrow> real tensor" where
  "neg t = Tensor (shape t) (map uminus (data t))"

text \<open>\<^verbatim>\<open>b[i, 0]\<close>: needs two dimensions at least, row \<open>i\<close> and a column.\<close>

definition item_i0 :: "real tensor \<Rightarrow> nat \<Rightarrow> error + real tensor" where
  "item_i0 b i =
     (case shape b of
        k # c # rest \<Rightarrow>
          if i < k \<and> 0 < c
          then Inr (Tensor rest
                 (take (prod_list rest) (drop (i * c * prod_list rest) (data b))))
          else Inl (IndexError ''index is out of bounds'')
      | _ \<Rightarrow> Inl (IndexError ''too many indices for tensor''))"

type_synonym sparse_constraint = "nat tensor \<times> real tensor \<times> real tensor"

text \<open>The loop \<^verbatim>\<open>for i in range(k)\<close> of \<^verbatim>\<open>optimize_objective\<close>, over the list of the
  remaining values of \<open>i\<close>.\<close>

fun constraint_loop ::
  "real tensor \<Rightarrow> real tensor \<Rightarrow> nat \<Rightarrow> nat list \<Rightarrow> error + sparse_constraint list" where
  "constraint_loop A b d [] = Inr []"
| "constraint_loop A b d (i # is) =
     (let indicies = squeeze_all (nonzero (matrix_row A d i));
          coefficients = neg (index_row (matrix_row A d i) indicies)
      in case item_i0 b i of
           Inl e \<Rightarrow> Inl e
         | Inr bi \<Rightarrow>
             (case constraint_loop A b d is of
                Inl e \<Rightarrow> Inl e
              | Inr cs \<Rightarrow> Inr ((indicies, coefficients, neg bi) # cs)))"

definition inequality_constraints_of ::
  "(real tensor \<times> real tensor) option \<Rightarrow> error + sparse_constraint list option" where
  "inequality_constraints_of linear_constraints =
     (case linear_constraints of
        None \<Rightarrow> Inr None
      | Some (A, b) \<Rightarrow>
          (case unpack2 (shape A) of
             Inl e \<Rightarrow> Inl e
           | Inr (k, d) \<Rightarrow>
               (case constraint_loop A b d [0..<k] of
                  Inl e \<Rightarrow> Inl e
                | Inr cs \<Rightarrow> Inr (Some cs))))"

text \<open>Modelled from the spec: the acquisition functions and \<^verbatim>\<open>optimize_acqf\<close> are
  external ("an external optimizer entry point accepting (acquisition function,
  bounds, batch size, restart/sample counts, numeric options, constraints) and
  returning (points, values)"). An acquisition function is the record of its
  constructor call; \<^verbatim>\<open>optimize_acqf\<close> is a parameter that receives its keyword
  arguments as a record.\<close>

datatype acq_function =
    Acqf acqf_cls model objective "sampler option"
  | FixedFeatureAcquisitionFunction acq_function nat "int list" "real list"

record optimize_acqf_args =
  arg_acq_function :: acq_function
  arg_bounds :: "real tensor"
  arg_q :: int
  arg_num_restarts :: pyval
  arg_raw_samples :: pyval
  arg_options :: kwargs
  arg_inequality_constraints :: "sparse_constraint list option"
  arg_fixed_features :: pyval
  arg_post_processing_func :: pyval
  arg_batch_initial_conditions :: pyval
  arg_return_best_only :: bool
  arg_sequential :: bool

text \<open>\<^verbatim>\<open>bounds[:, dims]\<close>: the listed columns, along the second dimension.\<close>

definition select_columns :: "nat list \<Rightarrow> real tensor \<Rightarrow> error + real tensor" where
  "select_columns dims t =
     (case shape t of
        r # c # rest \<Rightarrow>
          if \<exists>j \<in> set dims. c \<le> j
          then Inl (IndexError ''index is out of bounds'')
          else Inr (Tensor (r # length dims # rest)
                 (concat (map (\<lambda>i. concat (map (\<lambda>j.
                    take (prod_list rest) (drop ((i * c + j) * prod_list rest) (data t))) dims))
                    [0..<r])))
      | _ \<Rightarrow> Inl (IndexError ''too many indices for tensor''))"

text \<open>The feature part of \<^verbatim>\<open>optimize_objective\<close>. \<^verbatim>\<open>len(bounds)\<close> is the first entry
  of the shape; the set difference \<^verbatim>\<open>range(len(bounds)) - fixed_features.keys()\<close> is
  listed in increasing order, as CPython lists a set of small natural numbers.\<close>

definition free_features ::
  "acq_function \<Rightarrow> real tensor \<Rightarrow> (int \<times> real) list option \<Rightarrow>
   error + acq_function \<times> real tensor" where
  "free_features acq_function bounds fixed_features =
     (case fixed_features of
        Some (kv # kvs) \<Rightarrow>
          (case shape_m1 bounds of
             Inl e \<Rightarrow> Inl e
           | Inr d \<Rightarrow>
               (let wrapped = FixedFeatureAcquisitionFunction acq_function d
                                (map fst (kv # kvs)) (map snd (kv # kvs))
                in case shape_0 bounds of
                     Inl e \<Rightarrow> Inl (TypeError ''len() of a 0-d tensor'')
                   | Inr n \<Rightarrow>
                       (let free_feature_dims =
                              filter (\<lambda>i. int i \<notin> key_set (kv # kvs)) [0..<n]
                        in case select_columns free_feature_dims bounds of
                             Inl e \<Rightarrow> Inl e
                           | Inr free_feature_bounds \<Rightarrow> Inr (wrapped, free_feature_bounds))))
      | _ \<Rightarrow> Inr (acq_function, bounds))"

definition optimize_objective_args ::
  "model \<Rightarrow> objective \<Rightarrow> real tensor \<Rightarrow> int \<Rightarrow> (real tensor \<times> real tensor) option \<Rightarrow>
   (int \<times> real) list option \<Rightarrow> (int \<times> real) list option \<Rightarrow> bool \<Rightarrow> int \<Rightarrow> int option \<Rightarrow>
   kwargs option \<Rightarrow> pyval \<Rightarrow> pyval \<Rightarrow> bool \<Rightarrow> kwargs \<Rightarrow> error + optimize_acqf_args" where
  "optimize_objective_args model objective bounds q linear_constraints fixed_features
     target_fidelities qmc mc_samples seed_inner optimizer_options post_processing_func
     batch_initial_conditions sequential ignore =
     (let optimizer_options =
            (case optimizer_options of None \<Rightarrow> Map.empty | Some opts \<Rightarrow> opts);
          acq_function =
            (case objective of
               MCAcquisitionObjective _ \<Rightarrow>
                 Acqf qSimpleRegret model objective
                   (Some ((if qmc then SobolQMCNormalSampler else IIDNormalSampler)
                            mc_samples seed_inner))
             | _ \<Rightarrow> Acqf PosteriorMean model objective None)
      in case free_features acq_function bounds fixed_features of
           Inl e \<Rightarrow> Inl e
         | Inr (acq_function, free_feature_bounds) \<Rightarrow>
             (case inequality_constraints_of linear_constraints of
                Inl e \<Rightarrow> Inl e
              | Inr inequality_constraints \<Rightarrow>
                  Inr \<lparr>arg_acq_function = acq_function,
                       arg_bounds = free_feature_bounds,
                       arg_q = q,
                       arg_num_restarts = dict_get optimizer_options ''num_restarts'' (PInt 60),
                       arg_raw_samples = dict_get optimizer_options ''raw_samples'' (PInt 1024),
                       arg_options =
                         [''batch_limit'' \<mapsto> dict_get optimizer_options ''batch_limit'' (PInt 8),
                          ''maxiter'' \<mapsto> dict_get optimizer_options ''maxiter'' (PInt 200),
                          ''nonnegative'' \<mapsto>
                             dict_get optimizer_options ''nonnegative'' (PBool False),
                          ''method'' \<mapsto> dict_get optimizer_options ''method'' (PStr ''L-BFGS-B'')],
                       arg_inequality_constraints = inequality_constraints,
                       arg_fixed_features = PNone,
                       arg_post_processing_func = post_processing_func,
                       arg_batch_initial_conditions = batch_initial_conditions,
                       arg_return_best_only = True,
                       arg_sequential = sequential\<rparr>))"

definition optimize_objective ::
  "(optimize_acqf_args \<Rightarrow> error + real tensor \<times> real tensor) \<Rightarrow>
   model \<Rightarrow> objective \<Rightarrow> real tensor \<Rightarrow> int \<Rightarrow> (real tensor \<times> real tensor) option \<Rightarrow>
   (int \<times> real) list option \<Rightarrow> (int \<times> real) list option \<Rightarrow> bool \<Rightarrow> int \<Rightarrow> int option \<Rightarrow>
   kwargs option \<Rightarrow> pyval \<Rightarrow> pyval \<Rightarrow> bool \<Rightarrow> kwargs \<Rightarrow> error + real tensor \<times> real tensor" where
  "optimize_objective optimize_acqf model objective bounds q linear_constraints fixed_features
     target_fidelities qmc mc_samples seed_inner optimizer_options post_processing_func
     batch_initial_conditions sequential ignore =
     (case optimize_objective_args model objective bounds q linear_constraints fixed_features
             target_fidelities qmc mc_samples seed_inner optimizer_options post_processing_func
             batch_initial_conditions sequential ignore of
        Inl e \<Rightarrow> Inl e
      | Inr args \<Rightarrow> optimize_acqf args)"

text \<open>Modelled from the spec: the optimizer reads a triple (indices, coefficients,
  bound) as the constraint \<^verbatim>\<open>sum(coefficients * x[indices]) >= bound\<close> on a point
  \<open>x\<close>.\<close>

definition satisfies :: "sparse_constraint \<Rightarrow> real list \<Rightarrow> bool" where
  "satisfies c x =
     (case c of (indices, coefficients, rhs) \<Rightarrow>
        (case data rhs of
           [bound] \<Rightarrow>
             bound \<le> sum_list (map2 (*) (data coefficients) (map (\<lambda>j. x ! j) (data indices)))
         | _ \<Rightarrow> False))"

text \<open>The triple that one pass of the loop appends for row \<open>i\<close>, when \<open>b\<close> is a
  \<open>k \<times> 1\<close> column.\<close>

definition constraint_of_row :: "real tensor \<Rightarrow> real tensor \<Rightarrow> nat \<Rightarrow> nat \<Rightarrow> sparse_constraint" where
  "constraint_of_row A b d i =
     (squeeze_all (nonzero (matrix_row A d i)),
      neg (index_row (matrix_row A d i) (squeeze_all (nonzero (matrix_row A d i)))),
      Tensor [] [- (data b ! i)])"

section \<open>Properties of the registry\<close>

lemma check_duplicates_None_iff:
  "check_duplicates cs reg = None \<longleftrightarrow> (\<forall>c \<in> set cs. reg c = None)"
  by (induction cs) auto

lemma check_duplicates_Some:
  "check_duplicates cs reg = Some e \<Longrightarrow> \<exists>c \<in> set cs. reg c \<noteq> None \<and> e = ValueError (duplicate_msg c)"
  by (induction cs) (auto split: if_splits)

lemma decorator_fst: "fst (decorator cs m reg) = m"
  by (induction cs arbitrary: reg) auto

lemma decorator_keeps:
  "reg c = Some m \<Longrightarrow> snd (decorator cs m reg) c = Some m"
  by (induction cs arbitrary: reg) (auto simp: register_acqf_input_constructor_def)

lemma decorator_snd_in:
  "c \<in> set cs \<Longrightarrow> snd (decorator cs m reg) c = Some m"
proof (induction cs arbitrary: reg)
  case Nil
  then show ?case by simp
next
  case (Cons a cs)
  show ?case
  proof (cases "c \<in> set cs")
    case True
    then show ?thesis using Cons.IH by simp
  next
    case False
    with Cons.prems have ca: "c = a" by simp
    have "snd (decorator cs m (reg(a \<mapsto> m))) a = Some m"
      by (rule decorator_keeps) simp
    then show ?thesis using ca by (simp add: register_acqf_input_constructor_def)
  qed
qed

lemma decorator_snd_notin:
  "c \<notin> set cs \<Longrightarrow> snd (decorator cs m reg) c = reg c"
  by (induction cs arbitrary: reg) (auto simp: register_acqf_input_constructor_def)

lemma decorated_def_error_iff:
  "(\<exists>e. fst (decorated_def cs m reg) = Inl e) \<longleftrightarrow> (\<exists>c \<in> set cs. reg c \<noteq> None)"
proof (cases "check_duplicates cs reg")
  case None
  then show ?thesis
    using check_duplicates_None_iff [of cs reg]
    by (auto simp: decorated_def_def acqf_input_constructor_def split: prod.splits)
next
  case (Some e)
  then show ?thesis
    using check_duplicates_Some [of cs reg e]
    by (auto simp: decorated_def_def acqf_input_constructor_def)
qed

lemma decorated_def_error:
  assumes "decorated_def cs m reg = (Inl e, reg')"
  shows "reg' = reg \<and> (\<exists>c \<in> set cs. reg c \<noteq> None \<and> e = ValueError (duplicate_msg c))"
proof (cases "check_duplicates cs reg")
  case None
  with assms show ?thesis
    by (auto simp: decorated_def_def acqf_input_constructor_def split: prod.splits)
next
  case (Some e')
  with assms have "e' = e" "reg' = reg"
    by (auto simp: decorated_def_def acqf_input_constructor_def)
  with Some check_duplicates_Some [of cs reg e'] show ?thesis by blast
qed

lemma decorated_def_ok:
  "decorated_def cs m reg = (Inr x, reg') \<Longrightarrow>
     x = m \<and> (\<forall>c \<in> set cs. reg c = None) \<and>
     (\<forall>c. reg' c = (if c \<in> set cs then Some m else reg c))"
proof -
  assume a: "decorated_def cs m reg = (Inr x, reg')"
  then have chk: "check_duplicates cs reg = None"
    by (auto simp: decorated_def_def acqf_input_constructor_def split: option.splits)
  with a have d: "decorator cs m reg = (x, reg')"
    by (auto simp: decorated_def_def acqf_input_constructor_def split: prod.splits)
  have "x = m" using decorator_fst [of cs m reg] d by simp
  moreover have "\<forall>c \<in> set cs. reg c = None"
    using chk by (simp add: check_duplicates_None_iff)
  moreover have "\<forall>c. reg' c = (if c \<in> set cs then Some m else reg c)"
    using decorator_snd_in [of _ cs m reg] decorator_snd_notin [of _ cs m reg] d by auto
  ultimately show ?thesis by blast
qed

lemma decorated_def_keeps:
  "reg c = Some f \<Longrightarrow> snd (decorated_def cs m reg) c = Some f"
proof (cases "decorated_def cs m reg")
  case (Pair r reg')
  assume f: "reg c = Some f"
  show ?thesis
  proof (cases r)
    case (Inl e)
    with Pair f decorated_def_error [of cs m reg e reg'] show ?thesis by simp
  next
    case (Inr x)
    with Pair decorated_def_ok [of cs m reg x reg'] f show ?thesis by auto
  qed
qed

lemma load_definitions_keeps:
  "reg c = Some f \<Longrightarrow> snd (load_definitions ds reg) c = Some f"
proof (induction ds arbitrary: reg)
  case Nil
  then show ?case by simp
next
  case (Cons d ds)
  obtain cs m where d: "d = (cs, m)" by (cases d)
  obtain r reg1 where dd: "decorated_def cs m reg = (r, reg1)" by (cases "decorated_def cs m reg")
  have k: "reg1 c = Some f"
    using decorated_def_keeps [of reg c f cs m] Cons.prems dd by simp
  show ?case
  proof (cases r)
    case (Inl e)
    with d dd k show ?thesis by simp
  next
    case (Inr x)
    with d dd k Cons.IH [of reg1] show ?thesis by simp
  qed
qed

lemma load_definitions_error:
  "fst (load_definitions ds reg) = Inl e \<Longrightarrow> \<exists>c. e = ValueError (duplicate_msg c)"
proof (induction ds arbitrary: reg)
  case Nil
  then show ?case by simp
next
  case (Cons d ds)
  obtain cs m where d: "d = (cs, m)" by (cases d)
  obtain r reg1 where dd: "decorated_def cs m reg = (r, reg1)" by (cases "decorated_def cs m reg")
  show ?case
  proof (cases r)
    case (Inl e')
    with d dd Cons.prems have "e' = e" by simp
    with Inl dd decorated_def_error [of cs m reg e reg1] show ?thesis by blast
  next
    case (Inr x)
    with d dd Cons.prems have "fst (load_definitions ds reg1) = Inl e" by simp
    then show ?thesis by (rule Cons.IH)
  qed
qed

lemma load_definitions_fails:
  "reg c \<noteq> None \<Longrightarrow> (cs, m) \<in> set ds \<Longrightarrow> c \<in> set cs \<Longrightarrow>
     \<exists>e. fst (load_definitions ds reg) = Inl e"
proof (induction ds arbitrary: reg)
  case Nil
  then show ?case by simp
next
  case (Cons d ds)
  obtain cs' m' where d: "d = (cs', m')" by (cases d)
  obtain r reg1 where dd: "decorated_def cs' m' reg = (r, reg1)"
    by (cases "decorated_def cs' m' reg")
  show ?case
  proof (cases r)
    case (Inl e)
    with d dd show ?thesis by simp
  next
    case (Inr x)
    from Cons.prems(1) obtain f where f: "reg c = Some f" by auto
    have k: "reg1 c \<noteq> None"
      using decorated_def_keeps [of reg c f cs' m'] f dd by simp
    have "\<not> (\<exists>c \<in> set cs'. reg c \<noteq> None)"
      using decorated_def_error_iff [of cs' m' reg] dd Inr by simp
    with Cons.prems(1,3) have "(cs, m) \<noteq> (cs', m')" by auto
    with Cons.prems(2) d have "(cs, m) \<in> set ds" by auto
    with Cons.IH [of reg1] k Cons.prems(3) d dd Inr show ?thesis by simp
  qed
qed

lemma load_definitions_ok:
  "load_definitions ds reg = (Inr u, reg') \<Longrightarrow>
     (\<forall>(cs, m) \<in> set ds. \<forall>c \<in> set cs. reg' c = Some m) \<and>
     (\<forall>c. c \<notin> \<Union> (set ` fst ` set ds) \<longrightarrow> reg' c = reg c)"
proof (induction ds arbitrary: reg)
  case Nil
  then show ?case by simp
next
  case (Cons d ds)
  obtain cs m where d: "d = (cs, m)" by (cases d)
  obtain r reg1 where dd: "decorated_def cs m reg = (r, reg1)" by (cases "decorated_def cs m reg")
  from Cons.prems d dd obtain x where r: "r = Inr x"
    by (cases r) auto
  with Cons.prems d dd have tl: "load_definitions ds reg1 = (Inr u, reg')" by simp
  note ih = Cons.IH [OF tl]
  have ok: "\<forall>c. reg1 c = (if c \<in> set cs then Some m else reg c)"
    using decorated_def_ok [of cs m reg x reg1] dd r by simp
  have hd: "\<forall>c \<in> set cs. reg' c = Some m"
  proof
    fix c assume "c \<in> set cs"
    with ok have "reg1 c = Some m" by simp
    with load_definitions_keeps [of reg1 c m ds] tl show "reg' c = Some m" by simp
  qed
  show ?case using ih hd ok d by auto
qed

text \<open>The duplicate check belongs to the call that creates the decorator. Applying
  a decorator writes the entries without a check, so a decorator object that is
  kept and applied a second time writes them again.\<close>

lemma decorator_overwrites:
  "snd (decorator [c] m2 (snd (decorator [c] m1 reg))) c = Some m2"
  by (simp add: register_acqf_input_constructor_def)

text \<open>The module itself imports without a duplicate.\<close>

lemma module_loads:
  "load_definitions module_definitions Map.empty = (Inr (), ACQF_INPUT_CONSTRUCTOR_REGISTRY)"
  by (simp add: ACQF_INPUT_CONSTRUCTOR_REGISTRY_def module_definitions_def decorated_def_def
      acqf_input_constructor_def register_acqf_input_constructor_def)

text \<open>
  Claim C1. For every class that has been registered with a constructor function,
  \<^verbatim>\<open>get_acqf_input_constructor\<close> returns exactly that function; for a class that is
  not in the registry it raises a \<^verbatim>\<open>RuntimeError\<close> whose message names the class.
  The third part reads "registered" as registered by a module: after any sequence of
  decorated definitions has been imported without error into an empty registry,
  every class of every definition is looked up to that definition's function, and
  every other class fails.
\<close>

theorem lookup_registered:
  "(\<forall>c f. reg c = Some f \<longrightarrow> get_acqf_input_constructor c reg = Inr f) \<and>
   (\<forall>c. reg c = None \<longrightarrow>
      get_acqf_input_constructor c reg = Inl (RuntimeError (not_registered_msg c))) \<and>
   (load_definitions ds Map.empty = (Inr (), reg') \<longrightarrow>
      (\<forall>(cs, m) \<in> set ds. \<forall>c \<in> set cs. get_acqf_input_constructor c reg' = Inr m) \<and>
      (\<forall>c. c \<notin> \<Union> (set ` fst ` set ds) \<longrightarrow>
         get_acqf_input_constructor c reg' = Inl (RuntimeError (not_registered_msg c))))"
proof (intro conjI allI impI)
  fix c f assume "reg c = Some f"
  then show "get_acqf_input_constructor c reg = Inr f"
    by (simp add: get_acqf_input_constructor_def)
next
  fix c assume "reg c = None"
  then show "get_acqf_input_constructor c reg = Inl (RuntimeError (not_registered_msg c))"
    by (simp add: get_acqf_input_constructor_def)
next
  assume l: "load_definitions ds Map.empty = (Inr (), reg')"
  from load_definitions_ok [OF l]
  show "\<forall>(cs, m) \<in> set ds. \<forall>c \<in> set cs. get_acqf_input_constructor c reg' = Inr m"
    by (auto simp: get_acqf_input_constructor_def)
next
  fix c
  assume l: "load_definitions ds Map.empty = (Inr (), reg')"
    and c: "c \<notin> \<Union> (set ` fst ` set ds)"
  from load_definitions_ok [OF l] c have "reg' c = None" by simp
  then show "get_acqf_input_constructor c reg' = Inl (RuntimeError (not_registered_msg c))"
    by (simp add: get_acqf_input_constructor_def)
qed

theorem lookup_registered_witness:
  "load_definitions module_definitions Map.empty = (Inr (), ACQF_INPUT_CONSTRUCTOR_REGISTRY) \<and>
   get_acqf_input_constructor ExpectedImprovement ACQF_INPUT_CONSTRUCTOR_REGISTRY = Inr Fn_best_f \<and>
   get_acqf_input_constructor ProbabilityOfImprovement ACQF_INPUT_CONSTRUCTOR_REGISTRY = Inr Fn_best_f \<and>
   get_acqf_input_constructor qKnowledgeGradient ACQF_INPUT_CONSTRUCTOR_REGISTRY = Inr Fn_qKG \<and>
   get_acqf_input_constructor (OtherAcqf ''Foo'') ACQF_INPUT_CONSTRUCTOR_REGISTRY =
     Inl (RuntimeError (''Input constructor for acquisition class `Foo` not registered. '' @
       ''Use the `@acqf_input_constructor` decorator to register a new method.''))"
proof -
  note l = module_loads
  note t = lookup_registered [of ACQF_INPUT_CONSTRUCTOR_REGISTRY module_definitions
      ACQF_INPUT_CONSTRUCTOR_REGISTRY]
  from t l have a: "\<forall>(cs, m) \<in> set module_definitions. \<forall>c \<in> set cs.
      get_acqf_input_constructor c ACQF_INPUT_CONSTRUCTOR_REGISTRY = Inr m" by blast
  from t l have b: "\<forall>c. c \<notin> \<Union> (set ` fst ` set module_definitions) \<longrightarrow>
         get_acqf_input_constructor c ACQF_INPUT_CONSTRUCTOR_REGISTRY =
         Inl (RuntimeError (not_registered_msg c))" by blast
  have "get_acqf_input_constructor (OtherAcqf ''Foo'') ACQF_INPUT_CONSTRUCTOR_REGISTRY =
         Inl (RuntimeError (not_registered_msg (OtherAcqf ''Foo'')))"
    using b by (simp add: module_definitions_def)
  moreover have "get_acqf_input_constructor ExpectedImprovement ACQF_INPUT_CONSTRUCTOR_REGISTRY = Inr Fn_best_f"
    "get_acqf_input_constructor ProbabilityOfImprovement ACQF_INPUT_CONSTRUCTOR_REGISTRY = Inr Fn_best_f"
    "get_acqf_input_constructor qKnowledgeGradient ACQF_INPUT_CONSTRUCTOR_REGISTRY = Inr Fn_qKG"
    using a by (simp_all add: module_definitions_def)
  ultimately show ?thesis using l by (simp add: not_registered_msg_def)
qed

lemma acqf_input_constructor_duplicate:
  "reg c \<noteq> None \<Longrightarrow> c \<in> set cs \<Longrightarrow>
     \<exists>c' \<in> set cs. reg c' \<noteq> None \<and> acqf_input_constructor cs reg = Inl (ValueError (duplicate_msg c'))"
proof -
  assume a: "reg c \<noteq> None" "c \<in> set cs"
  then have "check_duplicates cs reg \<noteq> None"
    by (auto simp: check_duplicates_None_iff)
  then obtain e where e: "check_duplicates cs reg = Some e" by auto
  from check_duplicates_Some [OF e] e show ?thesis
    by (auto simp: acqf_input_constructor_def)
qed

text \<open>
  Claim C2. When a class \<open>c\<close> is already in the registry, calling
  \<^verbatim>\<open>acqf_input_constructor\<close> with an argument list that contains \<open>c\<close> raises
  \<^verbatim>\<open>ValueError\<close> (for the first registered class of the list) and the registry is
  unchanged; no decorated definition and no sequence of decorated definitions
  changes the entry of \<open>c\<close>, and a sequence that mentions \<open>c\<close> raises. In
  particular, after a first decorated definition for \<open>c\<close> has succeeded, and
  after any further decorated definitions, a second one for \<open>c\<close> raises and
  leaves the first function in place.
\<close>

theorem duplicate_registration_fails:
  "(reg c = Some f \<longrightarrow>
      (c \<in> set cs \<longrightarrow>
         (\<exists>c' \<in> set cs. reg c' \<noteq> None \<and>
            acqf_input_constructor cs reg = Inl (ValueError (duplicate_msg c')) \<and>
            decorated_def cs m reg = (Inl (ValueError (duplicate_msg c')), reg))) \<and>
      snd (decorated_def cs m reg) c = Some f \<and>
      snd (load_definitions ds reg) c = Some f \<and>
      ((\<exists>(cs', m') \<in> set ds. c \<in> set cs') \<longrightarrow>
         (\<exists>c'. fst (load_definitions ds reg) = Inl (ValueError (duplicate_msg c'))))) \<and>
   (decorated_def cs1 m1 reg0 = (Inr x, reg1) \<and> c \<in> set cs1 \<and> c \<in> set cs2 \<longrightarrow>
      (\<exists>c'. fst (decorated_def cs2 m2 (snd (load_definitions ds reg1))) =
              Inl (ValueError (duplicate_msg c'))) \<and>
      snd (decorated_def cs2 m2 (snd (load_definitions ds reg1))) c = Some m1)"
proof (intro conjI impI)
  assume r: "reg c = Some f" and c: "c \<in> set cs"
  from r have "reg c \<noteq> None" by simp
  with acqf_input_constructor_duplicate [of reg c cs] c
  show "\<exists>c' \<in> set cs. reg c' \<noteq> None \<and>
            acqf_input_constructor cs reg = Inl (ValueError (duplicate_msg c')) \<and>
            decorated_def cs m reg = (Inl (ValueError (duplicate_msg c')), reg)"
    by (auto simp: decorated_def_def)
next
  assume "reg c = Some f"
  then show "snd (decorated_def cs m reg) c = Some f"
    using decorated_def_keeps [of reg c f cs m] by simp
next
  assume "reg c = Some f"
  then show "snd (load_definitions ds reg) c = Some f"
    using load_definitions_keeps [of reg c f ds] by simp
next
  assume r: "reg c = Some f" and "\<exists>(cs', m') \<in> set ds. c \<in> set cs'"
  then obtain cs' m' where d: "(cs', m') \<in> set ds" "c \<in> set cs'" by auto
  from r have "reg c \<noteq> None" by simp
  with load_definitions_fails [of reg c cs' m' ds] d obtain e where e: "fst (load_definitions ds reg) = Inl e" by blast
  from load_definitions_error [OF e] e
  show "\<exists>c'. fst (load_definitions ds reg) = Inl (ValueError (duplicate_msg c'))" by auto
next
  assume a: "decorated_def cs1 m1 reg0 = (Inr x, reg1) \<and> c \<in> set cs1 \<and> c \<in> set cs2"
  then have "reg1 c = Some m1" using decorated_def_ok [of cs1 m1 reg0 x reg1] by simp
  then have k: "snd (load_definitions ds reg1) c = Some m1"
    using load_definitions_keeps [of reg1 c m1 ds] by simp
  then have "snd (load_definitions ds reg1) c \<noteq> None" by simp
  with acqf_input_constructor_duplicate [of "snd (load_definitions ds reg1)" c cs2] a
  show "\<exists>c'. fst (decorated_def cs2 m2 (snd (load_definitions ds reg1))) =
              Inl (ValueError (duplicate_msg c'))"
    by (auto simp: decorated_def_def)
next
  assume a: "decorated_def cs1 m1 reg0 = (Inr x, reg1) \<and> c \<in> set cs1 \<and> c \<in> set cs2"
  then have "reg1 c = Some m1" using decorated_def_ok [of cs1 m1 reg0 x reg1] by simp
  then have k: "snd (load_definitions ds reg1) c = Some m1"
    using load_definitions_keeps [of reg1 c m1 ds] by simp
  then show "snd (decorated_def cs2 m2 (snd (load_definitions ds reg1))) c = Some m1"
    using decorated_def_keeps [of "snd (load_definitions ds reg1)" c m1 cs2 m2] by simp
qed

theorem duplicate_registration_fails_witness:
  "decorated_def [ExpectedImprovement, ProbabilityOfImprovement] Fn_best_f Map.empty =
     (Inr Fn_best_f, [ExpectedImprovement \<mapsto> Fn_best_f, ProbabilityOfImprovement \<mapsto> Fn_best_f]) \<and>
   fst (decorated_def [PosteriorMean, ExpectedImprovement] Fn_qEI
     (snd (load_definitions [([UpperConfidenceBound], Fn_ucb), ([qSimpleRegret], Fn_mc_base)]
        [ExpectedImprovement \<mapsto> Fn_best_f, ProbabilityOfImprovement \<mapsto> Fn_best_f]))) =
     Inl (ValueError ''Cannot register duplicate arg constructor for acquisition class `ExpectedImprovement`'') \<and>
   snd (decorated_def [PosteriorMean, ExpectedImprovement] Fn_qEI
     (snd (load_definitions [([UpperConfidenceBound], Fn_ucb), ([qSimpleRegret], Fn_mc_base)]
        [ExpectedImprovement \<mapsto> Fn_best_f, ProbabilityOfImprovement \<mapsto> Fn_best_f])))
     ExpectedImprovement = Some Fn_best_f \<and>
   acqf_input_constructor [ExpectedImprovement]
     [ExpectedImprovement \<mapsto> Fn_best_f, ProbabilityOfImprovement \<mapsto> Fn_best_f] =
     Inl (ValueError ''Cannot register duplicate arg constructor for acquisition class `ExpectedImprovement`'')"
proof -
  let ?r1 = "[ExpectedImprovement \<mapsto> Fn_best_f, ProbabilityOfImprovement \<mapsto> Fn_best_f]"
  let ?ds = "[([UpperConfidenceBound], Fn_ucb), ([qSimpleRegret], Fn_mc_base)]"
  let ?e = "ValueError ''Cannot register duplicate arg constructor for acquisition class `ExpectedImprovement`''"
  have d1: "decorated_def [ExpectedImprovement, ProbabilityOfImprovement] Fn_best_f Map.empty =
     (Inr Fn_best_f, ?r1)"
    by (simp add: decorated_def_def acqf_input_constructor_def register_acqf_input_constructor_def)
  have r1: "?r1 ExpectedImprovement = Some Fn_best_f" by simp
  note t = duplicate_registration_fails [of ?r1 ExpectedImprovement Fn_best_f
      "[ExpectedImprovement]" Fn_qEI ?ds
      "[ExpectedImprovement, ProbabilityOfImprovement]" Fn_best_f Map.empty Fn_best_f ?r1
      "[PosteriorMean, ExpectedImprovement]" Fn_qEI]
  from t d1 obtain c' where
    a: "fst (decorated_def [PosteriorMean, ExpectedImprovement] Fn_qEI
          (snd (load_definitions ?ds ?r1))) = Inl (ValueError (duplicate_msg c'))"
    by auto
  have a': "fst (decorated_def [PosteriorMean, ExpectedImprovement] Fn_qEI
          (snd (load_definitions ?ds ?r1))) = Inl ?e"
    by (simp add: decorated_def_def acqf_input_constructor_def register_acqf_input_constructor_def
        duplicate_msg_def)
  from t d1 have b: "snd (decorated_def [PosteriorMean, ExpectedImprovement] Fn_qEI
     (snd (load_definitions ?ds ?r1))) ExpectedImprovement = Some Fn_best_f"
    by simp
  from t r1 obtain c'' where c: "acqf_input_constructor [ExpectedImprovement] ?r1 =
      Inl (ValueError (duplicate_msg c''))" and "c'' \<in> set [ExpectedImprovement]"
    by auto
  then have c': "acqf_input_constructor [ExpectedImprovement] ?r1 = Inl ?e"
    by (simp add: duplicate_msg_def)
  from d1 a a' b c' show ?thesis by simp
qed

section \<open>Properties of the best observed value\<close>

lemma list_max_Max: "xs \<noteq> [] \<Longrightarrow> list_max xs = Max (set xs)"
  by (induction xs rule: list_max.induct) auto

lemma length_rows: "length (rows n k xs) = n"
  by (induction n arbitrary: xs) auto

lemma rows_nth: "i < n \<Longrightarrow> rows n k xs ! i = take k (drop (i * k) xs)"
proof (induction n arbitrary: xs i)
  case 0
  then show ?case by simp
next
  case (Suc n)
  show ?case
  proof (cases i)
    case 0
    then show ?thesis by simp
  next
    case (Suc i')
    with Suc.prems have "i' < n" by simp
    from Suc.IH [OF this, of "drop k xs"] Suc show ?thesis
      by (simp add: add.commute)
  qed
qed

lemma rows_one: "length xs = k \<Longrightarrow> rows (Suc 0) k xs = [xs]"
  by simp

lemma rows_column:
  assumes "length xs = n * m" "j < m"
  shows "map (\<lambda>r. r ! j) (rows n m xs) = map (\<lambda>i. xs ! (i * m + j)) [0..<n]"
proof (rule nth_equalityI)
  show "length (map (\<lambda>r. r ! j) (rows n m xs)) = length (map (\<lambda>i. xs ! (i * m + j)) [0..<n])"
    by (simp add: length_rows)
next
  fix i assume "i < length (map (\<lambda>r. r ! j) (rows n m xs))"
  then have i: "i < n" by (simp add: length_rows)
  then have "Suc i \<le> n" by simp
  then have "Suc i * m \<le> n * m" by (rule mult_le_mono1)
  with assms have b: "i * m + j < length xs" by simp
  have "rows n m xs ! i ! j = take m (drop (i * m) xs) ! j"
    by (simp add: rows_nth [OF i])
  also have "\<dots> = xs ! (i * m + j)"
    using assms(2) b by simp
  finally show "map (\<lambda>r. r ! j) (rows n m xs) ! i = map (\<lambda>i. xs ! (i * m + j)) [0..<n] ! i"
    using i by (simp add: length_rows)
qed

lemma max_m1_vector:
  assumes "shape t = [n]" "length (data t) = n" "0 < n"
  shows "max_m1 t = Inr (Tensor [] [Max (set (data t))])"
proof -
  from assms have ne: "data t \<noteq> []" by auto
  show ?thesis
    using assms ne by (simp add: max_m1_def list_max_Max)
qed

lemma max_m2_column:
  assumes "shape t = [n, 1]" "length (data t) = n" "0 < n"
  shows "max_m2 t = Inr (Tensor [1] [Max (set (data t))])"
proof -
  from assms have ne: "data t \<noteq> []" by auto
  have "map (\<lambda>i. data t ! i) [0..<n] = data t"
    using assms(2) map_nth [of "data t"] by simp
  then have "col_maxes n 1 (data t) = [Max (set (data t))]"
    using ne by (simp add: col_maxes_def list_max_Max)
  then show ?thesis
    using assms by (simp add: max_m2_def)
qed

lemma shape_m1_snoc: "shape_m1 (t :: 'a tensor) = Inr m \<longleftrightarrow> (\<exists>bs. shape t = bs @ [m])"
proof (cases "shape t")
  case Nil
  then show ?thesis by (simp add: shape_m1_def)
next
  case (Cons a as)
  then have "shape t \<noteq> []" by simp
  then have "shape t = butlast (shape t) @ [last (shape t)]" by simp
  then show ?thesis using Cons
    by (auto simp: shape_m1_def simp del: append_butlast_last_id)
qed

lemma not_scalarized_cases:
  "(\<forall>ev c. obj \<noteq> Some (ScalarizedObjective ev c)) \<longleftrightarrow>
     (obj = None \<or> (\<exists>c. obj = Some (MCAcquisitionObjective c)) \<or> (\<exists>c. obj = Some (OtherObjective c)))"
proof (cases obj)
  case None
  then show ?thesis by simp
next
  case (Some ob)
  then show ?thesis by (cases ob) auto
qed

lemma get_best_f_analytic_plain:
  assumes "is_block_design td" "\<forall>ev c. obj \<noteq> Some (ScalarizedObjective ev c)"
  shows "get_best_f_analytic td obj =
     (case shape_m1 (Y td) of
        Inl e \<Rightarrow> Inl e
      | Inr m \<Rightarrow>
          if m > 1
          then Inl (NotImplementedError
            (''Analytic acquisition functions currently only work with '' @
             ''multi-output models if provided with a `ScalarizedObjective`.''))
          else (case max_m2 (Y td) of Inl e \<Rightarrow> Inl e | Inr r \<Rightarrow> Inr (squeeze_m1 r)))"
  using assms unfolding not_scalarized_cases
  by (auto simp: get_best_f_analytic_def)

text \<open>With no observation there is no maximum: the reduction over the empty
  dimension raises.\<close>

lemma get_best_f_analytic_empty:
  "get_best_f_analytic \<lparr>is_block_design = True, X = x, Y = Tensor [0, 1] []\<rparr> None =
     Inl (IndexError ''max(): Expected reduction dim to have non-zero size.'')"
  by (simp add: get_best_f_analytic_def shape_m1_def max_m2_def)

lemma get_best_f_mc_empty:
  "get_best_f_mc \<lparr>is_block_design = True, X = x, Y = Tensor [0, 1] []\<rparr> None =
     Inl (IndexError ''max(): Expected reduction dim to have non-zero size.'')"
  by (simp add: get_best_f_mc_def shape_m1_def IdentityMCObjective_def squeeze_m1_def max_m1_def)

text \<open>
  Claim C3. \<^verbatim>\<open>get_best_f_analytic\<close> raises \<^verbatim>\<open>NotImplementedError\<close> when the data is
  not block design. On block-design data with a \<^verbatim>\<open>ScalarizedObjective\<close> it returns
  the maximum, along the last dimension, of what the objective's \<^verbatim>\<open>evaluate\<close> makes
  of the outcomes: for \<open>n > 0\<close> evaluated outcomes, their maximum. With no
  scalarizing objective (none, or an objective of another class) and outcomes of
  shape \<open>n \<times> 1\<close>, \<open>n > 0\<close>, it returns the maximum outcome; with more than one output
  column it raises \<^verbatim>\<open>NotImplementedError\<close>. For the outcomes \<open>[1.0, 3.0, 2.0]\<close> and no
  objective it returns \<open>3.0\<close>.
\<close>

theorem get_best_f_analytic_cases:
  "(\<not> is_block_design td \<longrightarrow>
      get_best_f_analytic td obj =
        Inl (NotImplementedError ''Currently only block designs are supported.'')) \<and>
   (is_block_design td \<longrightarrow>
      get_best_f_analytic td (Some (ScalarizedObjective ev c)) =
        (case ev (Y td) of Inl e \<Rightarrow> Inl e | Inr r \<Rightarrow> max_m1 r)) \<and>
   (is_block_design td \<and> ev (Y td) = Inr r \<and> shape r = [n] \<and> length (data r) = n \<and> 0 < n \<longrightarrow>
      get_best_f_analytic td (Some (ScalarizedObjective ev c)) =
        Inr (Tensor [] [Max (set (data r))])) \<and>
   (is_block_design td \<and> (\<forall>ev c. obj \<noteq> Some (ScalarizedObjective ev c)) \<and>
    shape (Y td) = [n, 1] \<and> length (data (Y td)) = n \<and> 0 < n \<longrightarrow>
      get_best_f_analytic td obj = Inr (Tensor [] [Max (set (data (Y td)))])) \<and>
   (is_block_design td \<and> (\<forall>ev c. obj \<noteq> Some (ScalarizedObjective ev c)) \<and>
    shape (Y td) = bs @ [m] \<and> 1 < m \<longrightarrow>
      get_best_f_analytic td obj =
        Inl (NotImplementedError
          (''Analytic acquisition functions currently only work with '' @
           ''multi-output models if provided with a `ScalarizedObjective`.''))) \<and>
   get_best_f_analytic \<lparr>is_block_design = True, X = x, Y = Tensor [3, 1] [1, 3, 2]\<rparr> None =
     Inr (Tensor [] [3])"
proof (intro conjI impI)
  assume "\<not> is_block_design td"
  then show "get_best_f_analytic td obj =
      Inl (NotImplementedError ''Currently only block designs are supported.'')"
    by (simp add: get_best_f_analytic_def block_design_msg_def)
next
  assume "is_block_design td"
  then show "get_best_f_analytic td (Some (ScalarizedObjective ev c)) =
      (case ev (Y td) of Inl e \<Rightarrow> Inl e | Inr r \<Rightarrow> max_m1 r)"
    by (simp add: get_best_f_analytic_def)
next
  assume a: "is_block_design td \<and> ev (Y td) = Inr r \<and> shape r = [n] \<and> length (data r) = n \<and> 0 < n"
  then have "max_m1 r = Inr (Tensor [] [Max (set (data r))])"
    by (simp add: max_m1_vector)
  with a show "get_best_f_analytic td (Some (ScalarizedObjective ev c)) =
      Inr (Tensor [] [Max (set (data r))])"
    by (simp add: get_best_f_analytic_def)
next
  assume a: "is_block_design td \<and> (\<forall>ev c. obj \<noteq> Some (ScalarizedObjective ev c)) \<and>
    shape (Y td) = [n, 1] \<and> length (data (Y td)) = n \<and> 0 < n"
  then have m2: "max_m2 (Y td) = Inr (Tensor [1] [Max (set (data (Y td)))])"
    by (simp add: max_m2_column)
  from a have s: "shape_m1 (Y td) = Inr 1" by (simp add: shape_m1_def)
  from a have "get_best_f_analytic td obj =
      (case max_m2 (Y td) of Inl e \<Rightarrow> Inl e | Inr r \<Rightarrow> Inr (squeeze_m1 r))"
    by (simp add: get_best_f_analytic_plain s)
  with m2 show "get_best_f_analytic td obj = Inr (Tensor [] [Max (set (data (Y td)))])"
    by (simp add: squeeze_m1_def)
next
  assume a: "is_block_design td \<and> (\<forall>ev c. obj \<noteq> Some (ScalarizedObjective ev c)) \<and>
    shape (Y td) = bs @ [m] \<and> 1 < m"
  then have s: "shape_m1 (Y td) = Inr m" unfolding shape_m1_snoc by blast
  from a show "get_best_f_analytic td obj =
        Inl (NotImplementedError
          (''Analytic acquisition functions currently only work with '' @
           ''multi-output models if provided with a `ScalarizedObjective`.''))"
    by (simp add: get_best_f_analytic_plain s)
next
  show "get_best_f_analytic \<lparr>is_block_design = True, X = x, Y = Tensor [3, 1] [1, 3, 2]\<rparr> None =
     Inr (Tensor [] [3])"
    by (simp add: get_best_f_analytic_def shape_m1_def max_m2_def col_maxes_def squeeze_m1_def
        numeral_3_eq_3 upt_rec)
qed

theorem get_best_f_analytic_cases_witness:
  "get_best_f_analytic \<lparr>is_block_design = False, X = Tensor [3, 1] [0, 1, 2], Y = Tensor [3, 1] [1, 3, 2]\<rparr> None =
     Inl (NotImplementedError ''Currently only block designs are supported.'') \<and>
   get_best_f_analytic \<lparr>is_block_design = True, X = Tensor [3, 1] [0, 1, 2], Y = Tensor [3, 1] [1, 3, 2]\<rparr> None =
     Inr (Tensor [] [3]) \<and>
   get_best_f_analytic \<lparr>is_block_design = True, X = Tensor [2, 1] [0, 1], Y = Tensor [2, 2] [1, 5, 4, 2]\<rparr>
       (Some (ScalarizedObjective (select_m1 0) (\<lambda>t. Inr t))) =
     Inr (Tensor [] [4]) \<and>
   get_best_f_analytic \<lparr>is_block_design = True, X = Tensor [2, 1] [0, 1], Y = Tensor [2, 2] [1, 5, 4, 2]\<rparr>
       (Some (OtherObjective (\<lambda>t. Inr t))) =
     Inl (NotImplementedError
          (''Analytic acquisition functions currently only work with '' @
           ''multi-output models if provided with a `ScalarizedObjective`.''))"
proof -
  let ?x = "Tensor [3, 1] [0, 1, 2 :: real]"
  let ?x2 = "Tensor [2, 1] [0, 1 :: real]"
  let ?y = "Tensor [3, 1] [1, 3, 2 :: real]"
  let ?y2 = "Tensor [2, 2] [1, 5, 4, 2 :: real]"
  let ?id = "\<lambda>t :: real tensor. Inr t :: error + real tensor"
  note t1 = get_best_f_analytic_cases [of "\<lparr>is_block_design = False, X = ?x, Y = ?y\<rparr>" None
      ?id ?id ?y 3 "[]" 1 ?x]
  note t2 = get_best_f_analytic_cases [of "\<lparr>is_block_design = True, X = ?x, Y = ?y\<rparr>" None
      ?id ?id ?y 3 "[]" 1 ?x]
  note t3 = get_best_f_analytic_cases [of "\<lparr>is_block_design = True, X = ?x2, Y = ?y2\<rparr>"
      "Some (OtherObjective ?id)" "select_m1 0" ?id "Tensor [2] [1, 4]" 2 "[2]" 2 ?x]
  have sel: "select_m1 0 ?y2 = Inr (Tensor [2] [1, 4])"
    by (simp add: select_m1_def numeral_2_eq_2)
  have a: "get_best_f_analytic \<lparr>is_block_design = False, X = ?x, Y = ?y\<rparr> None =
     Inl (NotImplementedError ''Currently only block designs are supported.'')"
    using t1 by simp
  have b: "get_best_f_analytic \<lparr>is_block_design = True, X = ?x, Y = ?y\<rparr> None = Inr (Tensor [] [3])"
    using t2 by simp
  have c: "get_best_f_analytic \<lparr>is_block_design = True, X = ?x2, Y = ?y2\<rparr>
       (Some (ScalarizedObjective (select_m1 0) ?id)) = Inr (Tensor [] [4])"
    using t3 sel by (simp add: max_m1_def)
  have d: "get_best_f_analytic \<lparr>is_block_design = True, X = ?x2, Y = ?y2\<rparr>
       (Some (OtherObjective ?id)) =
     Inl (NotImplementedError
          (''Analytic acquisition functions currently only work with '' @
           ''multi-output models if provided with a `ScalarizedObjective`.''))"
    using t3 by simp
  from a b c d show ?thesis by blast
qed

lemma get_best_f_mc_Some:
  "is_block_design td \<Longrightarrow>
     get_best_f_mc td (Some obj) = (case call obj (Y td) of Inl e \<Rightarrow> Inl e | Inr r \<Rightarrow> max_m1 r)"
  by (simp add: get_best_f_mc_def)

lemma select_m1_matrix:
  assumes "shape t = [n, m]" "length (data t) = n * m" "j < m"
  shows "select_m1 j t = Inr (Tensor [n] (map (\<lambda>i. data t ! (i * m + j)) [0..<n]))"
  using assms by (simp add: select_m1_def rows_column)

text \<open>
  Claim C4. \<^verbatim>\<open>get_best_f_mc\<close> raises \<^verbatim>\<open>NotImplementedError\<close> when the data is not
  block design. With no objective it raises \<^verbatim>\<open>UnsupportedError\<close> when the outcomes
  have more than one output column, and otherwise behaves as with the identity
  objective: for outcomes of shape \<open>n \<times> 1\<close>, \<open>n > 0\<close>, it returns their maximum.
  With an objective it returns the maximum, along the last dimension, of the
  objective applied to the outcomes; for \<open>n \<times> m\<close> outcomes and the objective that
  selects column \<open>j\<close>, that is the maximum of column \<open>j\<close>.
\<close>

theorem get_best_f_mc_cases:
  "(\<not> is_block_design td \<longrightarrow>
      get_best_f_mc td obj =
        Inl (NotImplementedError ''Currently only block designs are supported.'')) \<and>
   (is_block_design td \<and> shape (Y td) = bs @ [m] \<and> 1 < m \<longrightarrow>
      get_best_f_mc td None =
        Inl (UnsupportedError
          (''Acquisition functions require an objective when '' @
           ''used with multi-output models (execpt for multi-objective'' @
           ''acquisition functions).''))) \<and>
   (is_block_design td \<and> shape (Y td) = bs @ [m] \<and> m \<le> 1 \<longrightarrow>
      get_best_f_mc td None = get_best_f_mc td (Some IdentityMCObjective)) \<and>
   (is_block_design td \<and> shape (Y td) = [n, 1] \<and> length (data (Y td)) = n \<and> 0 < n \<longrightarrow>
      get_best_f_mc td None = Inr (Tensor [] [Max (set (data (Y td)))])) \<and>
   (is_block_design td \<longrightarrow>
      get_best_f_mc td (Some ob) =
        (case call ob (Y td) of Inl e \<Rightarrow> Inl e | Inr r \<Rightarrow> max_m1 r)) \<and>
   (is_block_design td \<and> call ob (Y td) = Inr r \<and> shape r = [n] \<and> length (data r) = n \<and> 0 < n \<longrightarrow>
      get_best_f_mc td (Some ob) = Inr (Tensor [] [Max (set (data r))])) \<and>
   (is_block_design td \<and> shape (Y td) = [n, m] \<and> length (data (Y td)) = n * m \<and> 0 < n \<and> j < m \<longrightarrow>
      get_best_f_mc td (Some (MCAcquisitionObjective (select_m1 j))) =
        Inr (Tensor [] [Max ((\<lambda>i. data (Y td) ! (i * m + j)) ` {..<n})]))"
proof (intro conjI impI)
  assume "\<not> is_block_design td"
  then show "get_best_f_mc td obj =
      Inl (NotImplementedError ''Currently only block designs are supported.'')"
    by (simp add: get_best_f_mc_def block_design_msg_def)
next
  assume a: "is_block_design td \<and> shape (Y td) = bs @ [m] \<and> 1 < m"
  then have s: "shape_m1 (Y td) = Inr m" unfolding shape_m1_snoc by blast
  from a show "get_best_f_mc td None =
        Inl (UnsupportedError
          (''Acquisition functions require an objective when '' @
           ''used with multi-output models (execpt for multi-objective'' @
           ''acquisition functions).''))"
    by (simp add: get_best_f_mc_def s)
next
  assume a: "is_block_design td \<and> shape (Y td) = bs @ [m] \<and> m \<le> 1"
  then have s: "shape_m1 (Y td) = Inr m" unfolding shape_m1_snoc by blast
  from a show "get_best_f_mc td None = get_best_f_mc td (Some IdentityMCObjective)"
    by (simp add: get_best_f_mc_def s)
next
  assume a: "is_block_design td \<and> shape (Y td) = [n, 1] \<and> length (data (Y td)) = n \<and> 0 < n"
  then have s: "shape_m1 (Y td) = Inr 1" by (simp add: shape_m1_def)
  from a have q: "squeeze_m1 (Y td) = Tensor [n] (data (Y td))" by (simp add: squeeze_m1_def)
  from a have "max_m1 (Tensor [n] (data (Y td))) = Inr (Tensor [] [Max (set (data (Y td)))])"
    using max_m1_vector [of "Tensor [n] (data (Y td))" n] by simp
  with a q show "get_best_f_mc td None = Inr (Tensor [] [Max (set (data (Y td)))])"
    by (simp add: get_best_f_mc_def s IdentityMCObjective_def)
next
  assume "is_block_design td"
  then show "get_best_f_mc td (Some ob) =
      (case call ob (Y td) of Inl e \<Rightarrow> Inl e | Inr r \<Rightarrow> max_m1 r)"
    by (rule get_best_f_mc_Some)
next
  assume a: "is_block_design td \<and> call ob (Y td) = Inr r \<and> shape r = [n] \<and> length (data r) = n \<and> 0 < n"
  then have "max_m1 r = Inr (Tensor [] [Max (set (data r))])" by (simp add: max_m1_vector)
  with a show "get_best_f_mc td (Some ob) = Inr (Tensor [] [Max (set (data r))])"
    by (simp add: get_best_f_mc_Some)
next
  assume a: "is_block_design td \<and> shape (Y td) = [n, m] \<and> length (data (Y td)) = n * m \<and> 0 < n \<and> j < m"
  let ?col = "map (\<lambda>i. data (Y td) ! (i * m + j)) [0..<n]"
  from a have sel: "select_m1 j (Y td) = Inr (Tensor [n] ?col)" by (simp add: select_m1_matrix)
  from a have "max_m1 (Tensor [n] ?col) = Inr (Tensor [] [Max (set ?col)])"
    using max_m1_vector [of "Tensor [n] ?col" n] by simp
  moreover have "set ?col = (\<lambda>i. data (Y td) ! (i * m + j)) ` {..<n}"
    by (auto simp: lessThan_atLeast0)
  ultimately show "get_best_f_mc td (Some (MCAcquisitionObjective (select_m1 j))) =
        Inr (Tensor [] [Max ((\<lambda>i. data (Y td) ! (i * m + j)) ` {..<n})])"
    using a sel by (simp add: get_best_f_mc_Some)
qed

theorem get_best_f_mc_cases_witness:
  "get_best_f_mc \<lparr>is_block_design = False, X = Tensor [2, 1] [0, 1], Y = Tensor [2, 2] [1, 5, 4, 2]\<rparr> None =
     Inl (NotImplementedError ''Currently only block designs are supported.'') \<and>
   get_best_f_mc \<lparr>is_block_design = True, X = Tensor [2, 1] [0, 1], Y = Tensor [2, 2] [1, 5, 4, 2]\<rparr> None =
     Inl (UnsupportedError
          (''Acquisition functions require an objective when '' @
           ''used with multi-output models (execpt for multi-objective'' @
           ''acquisition functions).'')) \<and>
   get_best_f_mc \<lparr>is_block_design = True, X = Tensor [2, 1] [0, 1], Y = Tensor [2, 2] [1, 5, 4, 2]\<rparr>
       (Some (MCAcquisitionObjective (select_m1 1))) = Inr (Tensor [] [5]) \<and>
   get_best_f_mc \<lparr>is_block_design = True, X = Tensor [3, 1] [0, 1, 2], Y = Tensor [3, 1] [1, 3, 2]\<rparr> None =
     Inr (Tensor [] [3])"
proof -
  let ?x = "Tensor [3, 1] [0, 1, 2 :: real]"
  let ?x2 = "Tensor [2, 1] [0, 1 :: real]"
  let ?y = "Tensor [3, 1] [1, 3, 2 :: real]"
  let ?y2 = "Tensor [2, 2] [1, 5, 4, 2 :: real]"
  let ?ob = "MCAcquisitionObjective (select_m1 1)"
  note t1 = get_best_f_mc_cases [of "\<lparr>is_block_design = False, X = ?x2, Y = ?y2\<rparr>" None
      "[2]" 2 2 ?ob "Tensor [2] [5, 2]" 1]
  note t2 = get_best_f_mc_cases [of "\<lparr>is_block_design = True, X = ?x2, Y = ?y2\<rparr>" None
      "[2]" 2 2 ?ob "Tensor [2] [5, 2]" 1]
  note t3 = get_best_f_mc_cases [of "\<lparr>is_block_design = True, X = ?x, Y = ?y\<rparr>" None
      "[3]" 1 3 ?ob "Tensor [3] [1, 3, 2]" 0]
  have a: "get_best_f_mc \<lparr>is_block_design = False, X = ?x2, Y = ?y2\<rparr> None =
     Inl (NotImplementedError ''Currently only block designs are supported.'')"
    using t1 by simp
  have b: "get_best_f_mc \<lparr>is_block_design = True, X = ?x2, Y = ?y2\<rparr> None =
     Inl (UnsupportedError
          (''Acquisition functions require an objective when '' @
           ''used with multi-output models (execpt for multi-objective'' @
           ''acquisition functions).''))"
    using t2 by simp
  have "(\<lambda>i. [1, 5, 4, 2 :: real] ! (i * 2 + 1)) ` {..<2} = {5, 2}"
    by (auto simp: lessThan_Suc numeral_2_eq_2)
  then have c: "get_best_f_mc \<lparr>is_block_design = True, X = ?x2, Y = ?y2\<rparr> (Some ?ob) =
      Inr (Tensor [] [5])"
    using t2 by (simp add: max_m1_def select_m1_def numeral_2_eq_2)
  have d: "get_best_f_mc \<lparr>is_block_design = True, X = ?x, Y = ?y\<rparr> None = Inr (Tensor [] [3])"
    using t3 [THEN conjunct2, THEN conjunct2, THEN conjunct2, THEN conjunct1] by simp
  from a b c d show ?thesis by blast
qed

section \<open>Properties of the constructors that need a best observed value\<close>

lemma construct_inputs_best_f_error:
  "get_best_f_analytic td obj = Inl e \<Longrightarrow> construct_inputs_best_f mdl td obj mx kw = Inl e"
  by (simp add: construct_inputs_best_f_def)

lemma construct_inputs_qEI_error:
  "get_best_f_mc td obj = Inl e \<Longrightarrow> construct_inputs_qEI mdl td obj xp smp kw = Inl e"
  by (simp add: construct_inputs_qEI_def)

lemma get_best_f_analytic_not_block:
  "\<not> is_block_design td \<Longrightarrow> get_best_f_analytic td obj = Inl (NotImplementedError block_design_msg)"
  by (simp add: get_best_f_analytic_def)

lemma get_best_f_mc_not_block:
  "\<not> is_block_design td \<Longrightarrow> get_best_f_mc td obj = Inl (NotImplementedError block_design_msg)"
  by (simp add: get_best_f_mc_def)

lemma get_best_f_analytic_multi_output:
  assumes "is_block_design td" "\<forall>ev c. obj \<noteq> Some (ScalarizedObjective ev c)"
    "shape (Y td) = bs @ [m]" "1 < m"
  shows "get_best_f_analytic td obj =
     Inl (NotImplementedError
       (''Analytic acquisition functions currently only work with '' @
        ''multi-output models if provided with a `ScalarizedObjective`.''))"
proof -
  from assms(3) have "shape_m1 (Y td) = Inr m" unfolding shape_m1_snoc by blast
  with assms show ?thesis by (simp add: get_best_f_analytic_plain)
qed

lemma get_best_f_mc_multi_output:
  assumes "is_block_design td" "shape (Y td) = bs @ [m]" "1 < m"
  shows "get_best_f_mc td None =
     Inl (UnsupportedError
       (''Acquisition functions require an objective when '' @
        ''used with multi-output models (execpt for multi-objective'' @
        ''acquisition functions).''))"
proof -
  from assms(2) have "shape_m1 (Y td) = Inr m" unfolding shape_m1_snoc by blast
  with assms show ?thesis by (simp add: get_best_f_mc_def)
qed

text \<open>
  Claim C9. An explicit \<^verbatim>\<open>best_f\<close> among the keyword arguments does not bypass the
  preconditions of \<^verbatim>\<open>construct_inputs_best_f\<close> and \<^verbatim>\<open>construct_inputs_qEI\<close>: whenever
  the fallback computation raises, the constructor raises the same error, whatever
  the keyword arguments hold. So both raise \<^verbatim>\<open>NotImplementedError\<close> on data that is
  not block design; on block-design data with more than one output column,
  \<^verbatim>\<open>construct_inputs_best_f\<close> raises \<^verbatim>\<open>NotImplementedError\<close> unless the objective is a
  \<^verbatim>\<open>ScalarizedObjective\<close>, and \<^verbatim>\<open>construct_inputs_qEI\<close> raises \<^verbatim>\<open>UnsupportedError\<close>
  when there is no objective. Where the fallback returns, the explicit value is the
  one placed in the bundle.
\<close>

theorem explicit_best_f_does_not_bypass:
  "(get_best_f_analytic td obj = Inl e \<longrightarrow>
      construct_inputs_best_f mdl td obj mx (kw(''best_f'' \<mapsto> v)) = Inl e) \<and>
   (get_best_f_mc td obj = Inl e \<longrightarrow>
      construct_inputs_qEI mdl td obj xp smp (kw(''best_f'' \<mapsto> v)) = Inl e) \<and>
   (\<not> is_block_design td \<longrightarrow>
      construct_inputs_best_f mdl td obj mx (kw(''best_f'' \<mapsto> v)) =
        Inl (NotImplementedError ''Currently only block designs are supported.'') \<and>
      construct_inputs_qEI mdl td obj xp smp (kw(''best_f'' \<mapsto> v)) =
        Inl (NotImplementedError ''Currently only block designs are supported.'')) \<and>
   (is_block_design td \<and> shape (Y td) = bs @ [m] \<and> 1 < m \<and>
    (\<forall>ev c. obj \<noteq> Some (ScalarizedObjective ev c)) \<longrightarrow>
      construct_inputs_best_f mdl td obj mx (kw(''best_f'' \<mapsto> v)) =
        Inl (NotImplementedError
          (''Analytic acquisition functions currently only work with '' @
           ''multi-output models if provided with a `ScalarizedObjective`.''))) \<and>
   (is_block_design td \<and> shape (Y td) = bs @ [m] \<and> 1 < m \<longrightarrow>
      construct_inputs_qEI mdl td None xp smp (kw(''best_f'' \<mapsto> v)) =
        Inl (UnsupportedError
          (''Acquisition functions require an objective when '' @
           ''used with multi-output models (execpt for multi-objective'' @
           ''acquisition functions).''))) \<and>
   (get_best_f_analytic td obj = Inr d \<longrightarrow>
      construct_inputs_best_f mdl td obj mx (kw(''best_f'' \<mapsto> v)) =
        Inr ((construct_inputs_analytic_base mdl td obj Map.empty)
               (''best_f'' \<mapsto> v, ''maximize'' \<mapsto> PBool mx))) \<and>
   (get_best_f_mc td obj = Inr d \<longrightarrow>
      construct_inputs_qEI mdl td obj xp smp (kw(''best_f'' \<mapsto> v)) =
        Inr ((construct_inputs_mc_base mdl td obj xp smp Map.empty)(''best_f'' \<mapsto> v)))"
proof (intro conjI impI)
  assume "get_best_f_analytic td obj = Inl e"
  then show "construct_inputs_best_f mdl td obj mx (kw(''best_f'' \<mapsto> v)) = Inl e"
    by (rule construct_inputs_best_f_error)
next
  assume "get_best_f_mc td obj = Inl e"
  then show "construct_inputs_qEI mdl td obj xp smp (kw(''best_f'' \<mapsto> v)) = Inl e"
    by (rule construct_inputs_qEI_error)
next
  assume "\<not> is_block_design td"
  then show "construct_inputs_best_f mdl td obj mx (kw(''best_f'' \<mapsto> v)) =
        Inl (NotImplementedError ''Currently only block designs are supported.'')"
    by (simp add: construct_inputs_best_f_error get_best_f_analytic_not_block block_design_msg_def)
next
  assume "\<not> is_block_design td"
  then show "construct_inputs_qEI mdl td obj xp smp (kw(''best_f'' \<mapsto> v)) =
        Inl (NotImplementedError ''Currently only block designs are supported.'')"
    by (simp add: construct_inputs_qEI_error get_best_f_mc_not_block block_design_msg_def)
next
  assume "is_block_design td \<and> shape (Y td) = bs @ [m] \<and> 1 < m \<and>
    (\<forall>ev c. obj \<noteq> Some (ScalarizedObjective ev c))"
  then have "get_best_f_analytic td obj =
     Inl (NotImplementedError
       (''Analytic acquisition functions currently only work with '' @
        ''multi-output models if provided with a `ScalarizedObjective`.''))"
    using get_best_f_analytic_multi_output [of td obj bs m] by blast
  then show "construct_inputs_best_f mdl td obj mx (kw(''best_f'' \<mapsto> v)) =
        Inl (NotImplementedError
          (''Analytic acquisition functions currently only work with '' @
           ''multi-output models if provided with a `ScalarizedObjective`.''))"
    by (rule construct_inputs_best_f_error)
next
  assume "is_block_design td \<and> shape (Y td) = bs @ [m] \<and> 1 < m"
  then have "get_best_f_mc td None =
     Inl (UnsupportedError
       (''Acquisition functions require an objective when '' @
        ''used with multi-output models (execpt for multi-objective'' @
        ''acquisition functions).''))"
    using get_best_f_mc_multi_output [of td bs m] by blast
  then show "construct_inputs_qEI mdl td None xp smp (kw(''best_f'' \<mapsto> v)) =
        Inl (UnsupportedError
          (''Acquisition functions require an objective when '' @
           ''used with multi-output models (execpt for multi-objective'' @
           ''acquisition functions).''))"
    by (rule construct_inputs_qEI_error)
next
  assume "get_best_f_analytic td obj = Inr d"
  then show "construct_inputs_best_f mdl td obj mx (kw(''best_f'' \<mapsto> v)) =
        Inr ((construct_inputs_analytic_base mdl td obj Map.empty)
               (''best_f'' \<mapsto> v, ''maximize'' \<mapsto> PBool mx))"
    by (simp add: construct_inputs_best_f_def dict_get_def)
next
  assume "get_best_f_mc td obj = Inr d"
  then show "construct_inputs_qEI mdl td obj xp smp (kw(''best_f'' \<mapsto> v)) =
        Inr ((construct_inputs_mc_base mdl td obj xp smp Map.empty)(''best_f'' \<mapsto> v))"
    by (simp add: construct_inputs_qEI_def dict_get_def)
qed

theorem explicit_best_f_does_not_bypass_witness:
  "construct_inputs_best_f (Model (\<lambda>t. Inr t))
     \<lparr>is_block_design = False, X = Tensor [3, 1] [0, 1, 2], Y = Tensor [3, 1] [1, 3, 2]\<rparr>
     None True [''best_f'' \<mapsto> PFloat 7] =
     Inl (NotImplementedError ''Currently only block designs are supported.'') \<and>
   construct_inputs_qEI (Model (\<lambda>t. Inr t))
     \<lparr>is_block_design = False, X = Tensor [3, 1] [0, 1, 2], Y = Tensor [3, 1] [1, 3, 2]\<rparr>
     None None None [''best_f'' \<mapsto> PFloat 7] =
     Inl (NotImplementedError ''Currently only block designs are supported.'') \<and>
   construct_inputs_best_f (Model (\<lambda>t. Inr t))
     \<lparr>is_block_design = True, X = Tensor [2, 1] [0, 1], Y = Tensor [2, 2] [1, 5, 4, 2]\<rparr>
     None True [''best_f'' \<mapsto> PFloat 7] =
     Inl (NotImplementedError
          (''Analytic acquisition functions currently only work with '' @
           ''multi-output models if provided with a `ScalarizedObjective`.'')) \<and>
   construct_inputs_qEI (Model (\<lambda>t. Inr t))
     \<lparr>is_block_design = True, X = Tensor [2, 1] [0, 1], Y = Tensor [2, 2] [1, 5, 4, 2]\<rparr>
     None None None [''best_f'' \<mapsto> PFloat 7] =
     Inl (UnsupportedError
          (''Acquisition functions require an objective when '' @
           ''used with multi-output models (execpt for multi-objective'' @
           ''acquisition functions).'')) \<and>
   construct_inputs_best_f (Model (\<lambda>t. Inr t))
     \<lparr>is_block_design = True, X = Tensor [3, 1] [0, 1, 2], Y = Tensor [3, 1] [1, 3, 2]\<rparr>
     None True [''best_f'' \<mapsto> PFloat 7] =
     Inr [''model'' \<mapsto> PModel (Model (\<lambda>t. Inr t)), ''objective'' \<mapsto> PNone,
          ''best_f'' \<mapsto> PFloat 7, ''maximize'' \<mapsto> PBool True]"
proof -
  let ?m = "Model (\<lambda>t. Inr t)"
  let ?nb = "\<lparr>is_block_design = False, X = Tensor [3, 1] [0, 1, 2 :: real], Y = Tensor [3, 1] [1, 3, 2 :: real]\<rparr>"
  let ?mo = "\<lparr>is_block_design = True, X = Tensor [2, 1] [0, 1 :: real], Y = Tensor [2, 2] [1, 5, 4, 2 :: real]\<rparr>"
  let ?so = "\<lparr>is_block_design = True, X = Tensor [3, 1] [0, 1, 2 :: real], Y = Tensor [3, 1] [1, 3, 2 :: real]\<rparr>"
  let ?e = "NotImplementedError ''Currently only block designs are supported.''"
  note t1 = explicit_best_f_does_not_bypass [of ?nb None ?e ?m True Map.empty "PFloat 7"
      None None "[3]" 1 "Tensor [] [3]"]
  note t2 = explicit_best_f_does_not_bypass [of ?mo None ?e ?m True Map.empty "PFloat 7"
      None None "[2]" 2 "Tensor [] [3]"]
  note t3 = explicit_best_f_does_not_bypass [of ?so None ?e ?m True Map.empty "PFloat 7"
      None None "[3]" 1 "Tensor [] [3]"]
  have g: "get_best_f_analytic ?so None = Inr (Tensor [] [3])"
    by (simp add: get_best_f_analytic_def shape_m1_def max_m2_def col_maxes_def squeeze_m1_def
        numeral_3_eq_3 upt_rec)
  have a: "construct_inputs_best_f ?m ?nb None True [''best_f'' \<mapsto> PFloat 7] = Inl ?e"
    and b: "construct_inputs_qEI ?m ?nb None None None [''best_f'' \<mapsto> PFloat 7] = Inl ?e"
    using t1 by simp_all
  have c: "construct_inputs_best_f ?m ?mo None True [''best_f'' \<mapsto> PFloat 7] =
     Inl (NotImplementedError
          (''Analytic acquisition functions currently only work with '' @
           ''multi-output models if provided with a `ScalarizedObjective`.''))"
    and d: "construct_inputs_qEI ?m ?mo None None None [''best_f'' \<mapsto> PFloat 7] =
     Inl (UnsupportedError
          (''Acquisition functions require an objective when '' @
           ''used with multi-output models (execpt for multi-objective'' @
           ''acquisition functions).''))"
    using t2 by simp_all
  have f: "construct_inputs_best_f ?m ?so None True [''best_f'' \<mapsto> PFloat 7] =
     Inr [''model'' \<mapsto> PModel ?m, ''objective'' \<mapsto> PNone,
          ''best_f'' \<mapsto> PFloat 7, ''maximize'' \<mapsto> PBool True]"
    using t3 g by (simp add: construct_inputs_analytic_base_def py_opt_def)
  from a b c d f show ?thesis by blast
qed

text \<open>
  Claim C10. \<^verbatim>\<open>construct_inputs_qPI\<close> with a \<^verbatim>\<open>best_f\<close> argument that is not \<^verbatim>\<open>None\<close>
  returns, for every training data, the base bundle with \<^verbatim>\<open>tau\<close> and the supplied
  \<^verbatim>\<open>best_f\<close> unchanged. The result does not depend on \<^verbatim>\<open>get_best_f_mc\<close>: it is the
  same where \<^verbatim>\<open>get_best_f_mc\<close> raises, as on data that is not block design, where
  \<^verbatim>\<open>construct_inputs_qEI\<close> raises.
\<close>

theorem qPI_explicit_best_f:
  "(best_f \<noteq> PNone \<longrightarrow>
      construct_inputs_qPI mdl td obj xp smp tau best_f kw =
        Inr ((construct_inputs_mc_base mdl td obj xp smp Map.empty)
               (''tau'' \<mapsto> PFloat tau, ''best_f'' \<mapsto> best_f))) \<and>
   (best_f \<noteq> PNone \<and> get_best_f_mc td obj = Inl e \<longrightarrow>
      (\<exists>b. construct_inputs_qPI mdl td obj xp smp tau best_f kw = Inr b \<and>
           b ''best_f'' = Some best_f) \<and>
      construct_inputs_qEI mdl td obj xp smp (kw(''best_f'' \<mapsto> best_f)) = Inl e) \<and>
   (best_f \<noteq> PNone \<and> \<not> is_block_design td \<longrightarrow>
      (\<exists>b. construct_inputs_qPI mdl td obj xp smp tau best_f kw = Inr b \<and>
           b ''best_f'' = Some best_f))"
  by (auto simp: construct_inputs_qPI_def construct_inputs_qEI_def)

theorem qPI_explicit_best_f_witness:
  "construct_inputs_qPI (Model (\<lambda>t. Inr t))
     \<lparr>is_block_design = False, X = Tensor [2, 1] [0, 1], Y = Tensor [2, 2] [1, 5, 4, 2]\<rparr>
     None None None (1 / 1000) (PFloat 7) Map.empty =
     Inr [''model'' \<mapsto> PModel (Model (\<lambda>t. Inr t)), ''objective'' \<mapsto> PNone,
          ''X_pending'' \<mapsto> PNone, ''sampler'' \<mapsto> PNone,
          ''tau'' \<mapsto> PFloat (1 / 1000), ''best_f'' \<mapsto> PFloat 7] \<and>
   get_best_f_mc
     \<lparr>is_block_design = False, X = Tensor [2, 1] [0, 1], Y = Tensor [2, 2] [1, 5, 4, 2]\<rparr> None =
     Inl (NotImplementedError ''Currently only block designs are supported.'')"
proof -
  let ?m = "Model (\<lambda>t. Inr t)"
  let ?nb = "\<lparr>is_block_design = False, X = Tensor [2, 1] [0, 1 :: real], Y = Tensor [2, 2] [1, 5, 4, 2 :: real]\<rparr>"
  note t = qPI_explicit_best_f [of "PFloat 7" ?m ?nb None None None "1 / 1000" Map.empty
      "NotImplementedError ''Currently only block designs are supported.''"]
  have g: "get_best_f_mc ?nb None =
     Inl (NotImplementedError ''Currently only block designs are supported.'')"
    by (simp add: get_best_f_mc_def block_design_msg_def)
  have "construct_inputs_qPI ?m ?nb None None None (1 / 1000) (PFloat 7) Map.empty =
     Inr [''model'' \<mapsto> PModel ?m, ''objective'' \<mapsto> PNone,
          ''X_pending'' \<mapsto> PNone, ''sampler'' \<mapsto> PNone,
          ''tau'' \<mapsto> PFloat (1 / 1000), ''best_f'' \<mapsto> PFloat 7]"
    using t by (simp add: construct_inputs_mc_base_def py_opt_def)
  with g show ?thesis by blast
qed

section \<open>Data that is not block design\<close>

text \<open>
  Claim C5, as stated, fails: \<^verbatim>\<open>construct_inputs_qNEI\<close> with an \<^verbatim>\<open>X_baseline\<close> argument
  and \<^verbatim>\<open>construct_inputs_qPI\<close> with a \<^verbatim>\<open>best_f\<close> argument return a bundle on data that
  is not block design.
\<close>

theorem not_block_design_counterexample:
  "\<not> is_block_design
       \<lparr>is_block_design = False, X = Tensor [2, 1] [0, 1], Y = Tensor [2, 1] [1, 5]\<rparr> \<and>
   construct_inputs_qNEI (Model (\<lambda>t. Inr t))
     \<lparr>is_block_design = False, X = Tensor [2, 1] [0, 1], Y = Tensor [2, 1] [1, 5]\<rparr>
     None None None (Some (Tensor [1, 1] [4])) False Map.empty =
     Inr [''model'' \<mapsto> PModel (Model (\<lambda>t. Inr t)), ''objective'' \<mapsto> PNone,
          ''X_pending'' \<mapsto> PNone, ''sampler'' \<mapsto> PNone,
          ''X_baseline'' \<mapsto> PTensor (Tensor [1, 1] [4]), ''prune_baseline'' \<mapsto> PBool False] \<and>
   construct_inputs_qPI (Model (\<lambda>t. Inr t))
     \<lparr>is_block_design = False, X = Tensor [2, 1] [0, 1], Y = Tensor [2, 1] [1, 5]\<rparr>
     None None None (1 / 1000) (PFloat 7) Map.empty =
     Inr [''model'' \<mapsto> PModel (Model (\<lambda>t. Inr t)), ''objective'' \<mapsto> PNone,
          ''X_pending'' \<mapsto> PNone, ''sampler'' \<mapsto> PNone,
          ''tau'' \<mapsto> PFloat (1 / 1000), ''best_f'' \<mapsto> PFloat 7]"
  by (simp add: construct_inputs_qNEI_def construct_inputs_qPI_def construct_inputs_mc_base_def
      py_opt_def)

text \<open>
  Claim C5, amended. On training data that is not block design,
  \<^verbatim>\<open>get_best_f_analytic\<close>, \<^verbatim>\<open>get_best_f_mc\<close>, \<^verbatim>\<open>construct_inputs_best_f\<close>,
  \<^verbatim>\<open>construct_inputs_qEI\<close> and \<^verbatim>\<open>construct_inputs_noisy_ei\<close> raise
  \<^verbatim>\<open>NotImplementedError\<close> with the block-design message (without the final period in
  \<^verbatim>\<open>construct_inputs_noisy_ei\<close>), whatever the other arguments are;
  \<^verbatim>\<open>construct_inputs_qPI\<close> raises it when \<^verbatim>\<open>best_f\<close> is \<^verbatim>\<open>None\<close> and
  \<^verbatim>\<open>construct_inputs_qNEI\<close> when \<^verbatim>\<open>X_baseline\<close> is \<^verbatim>\<open>None\<close>. Given a \<^verbatim>\<open>best_f\<close>,
  respectively an \<^verbatim>\<open>X_baseline\<close>, these two return a bundle that holds the caller's
  value: no derivation puts a default in the place of a value it could not derive.
\<close>

theorem not_block_design_fails:
  "\<not> is_block_design td \<longrightarrow>
     get_best_f_analytic td obj =
       Inl (NotImplementedError ''Currently only block designs are supported.'') \<and>
     get_best_f_mc td obj =
       Inl (NotImplementedError ''Currently only block designs are supported.'') \<and>
     construct_inputs_best_f mdl td obj mx kw =
       Inl (NotImplementedError ''Currently only block designs are supported.'') \<and>
     construct_inputs_qEI mdl td obj xp smp kw =
       Inl (NotImplementedError ''Currently only block designs are supported.'') \<and>
     construct_inputs_qPI mdl td obj xp smp tau PNone kw =
       Inl (NotImplementedError ''Currently only block designs are supported.'') \<and>
     construct_inputs_noisy_ei mdl td nf mx kw =
       Inl (NotImplementedError ''Currently only block designs are supported'') \<and>
     construct_inputs_qNEI mdl td obj xp smp None pb kw =
       Inl (NotImplementedError ''Currently only block designs are supported.'') \<and>
     construct_inputs_qNEI mdl td obj xp smp (Some xb) pb kw =
       Inr ((construct_inputs_mc_base mdl td obj xp smp Map.empty)
              (''X_baseline'' \<mapsto> PTensor xb, ''prune_baseline'' \<mapsto> PBool pb)) \<and>
     (best_f \<noteq> PNone \<longrightarrow>
        construct_inputs_qPI mdl td obj xp smp tau best_f kw =
          Inr ((construct_inputs_mc_base mdl td obj xp smp Map.empty)
                 (''tau'' \<mapsto> PFloat tau, ''best_f'' \<mapsto> best_f)))"
proof
  assume nb: "\<not> is_block_design td"
  have a: "get_best_f_analytic td obj =
       Inl (NotImplementedError ''Currently only block designs are supported.'')"
    using nb by (simp add: get_best_f_analytic_not_block block_design_msg_def)
  have b: "get_best_f_mc td obj =
       Inl (NotImplementedError ''Currently only block designs are supported.'')"
    using nb by (simp add: get_best_f_mc_not_block block_design_msg_def)
  have c: "construct_inputs_best_f mdl td obj mx kw =
       Inl (NotImplementedError ''Currently only block designs are supported.'')"
    using a by (rule construct_inputs_best_f_error)
  have d: "construct_inputs_qEI mdl td obj xp smp kw =
       Inl (NotImplementedError ''Currently only block designs are supported.'')"
    using b by (rule construct_inputs_qEI_error)
  have e: "construct_inputs_qPI mdl td obj xp smp tau PNone kw =
       Inl (NotImplementedError ''Currently only block designs are supported.'')"
    using b by (simp add: construct_inputs_qPI_def)
  have f: "construct_inputs_noisy_ei mdl td nf mx kw =
       Inl (NotImplementedError ''Currently only block designs are supported'')"
    using nb by (simp add: construct_inputs_noisy_ei_def)
  have g: "construct_inputs_qNEI mdl td obj xp smp None pb kw =
       Inl (NotImplementedError ''Currently only block designs are supported.'')"
    using nb by (simp add: construct_inputs_qNEI_def block_design_msg_def)
  have h: "construct_inputs_qNEI mdl td obj xp smp (Some xb) pb kw =
       Inr ((construct_inputs_mc_base mdl td obj xp smp Map.empty)
              (''X_baseline'' \<mapsto> PTensor xb, ''prune_baseline'' \<mapsto> PBool pb))"
    by (simp add: construct_inputs_qNEI_def)
  have i: "best_f \<noteq> PNone \<longrightarrow>
        construct_inputs_qPI mdl td obj xp smp tau best_f kw =
          Inr ((construct_inputs_mc_base mdl td obj xp smp Map.empty)
                 (''tau'' \<mapsto> PFloat tau, ''best_f'' \<mapsto> best_f))"
    by (simp add: construct_inputs_qPI_def)
  from a b c d e f g h i
  show "get_best_f_analytic td obj =
       Inl (NotImplementedError ''Currently only block designs are supported.'') \<and>
     get_best_f_mc td obj =
       Inl (NotImplementedError ''Currently only block designs are supported.'') \<and>
     construct_inputs_best_f mdl td obj mx kw =
       Inl (NotImplementedError ''Currently only block designs are supported.'') \<and>
     construct_inputs_qEI mdl td obj xp smp kw =
       Inl (NotImplementedError ''Currently only block designs are supported.'') \<and>
     construct_inputs_qPI mdl td obj xp smp tau PNone kw =
       Inl (NotImplementedError ''Currently only block designs are supported.'') \<and>
     construct_inputs_noisy_ei mdl td nf mx kw =
       Inl (NotImplementedError ''Currently only block designs are supported'') \<and>
     construct_inputs_qNEI mdl td obj xp smp None pb kw =
       Inl (NotImplementedError ''Currently only block designs are supported.'') \<and>
     construct_inputs_qNEI mdl td obj xp smp (Some xb) pb kw =
       Inr ((construct_inputs_mc_base mdl td obj xp smp Map.empty)
              (''X_baseline'' \<mapsto> PTensor xb, ''prune_baseline'' \<mapsto> PBool pb)) \<and>
     (best_f \<noteq> PNone \<longrightarrow>
        construct_inputs_qPI mdl td obj xp smp tau best_f kw =
          Inr ((construct_inputs_mc_base mdl td obj xp smp Map.empty)
                 (''tau'' \<mapsto> PFloat tau, ''best_f'' \<mapsto> best_f)))"
    by blast
qed

theorem not_block_design_fails_witness:
  "construct_inputs_noisy_ei (Model (\<lambda>t. Inr t))
     \<lparr>is_block_design = False, X = Tensor [2, 1] [0, 1], Y = Tensor [2, 1] [1, 5]\<rparr>
     20 True Map.empty =
     Inl (NotImplementedError ''Currently only block designs are supported'') \<and>
   construct_inputs_qNEI (Model (\<lambda>t. Inr t))
     \<lparr>is_block_design = False, X = Tensor [2, 1] [0, 1], Y = Tensor [2, 1] [1, 5]\<rparr>
     None None None None False Map.empty =
     Inl (NotImplementedError ''Currently only block designs are supported.'') \<and>
   construct_inputs_best_f (Model (\<lambda>t. Inr t))
     \<lparr>is_block_design = False, X = Tensor [2, 1] [0, 1], Y = Tensor [2, 1] [1, 5]\<rparr>
     None True Map.empty =
     Inl (NotImplementedError ''Currently only block designs are supported.'') \<and>
   construct_inputs_qPI (Model (\<lambda>t. Inr t))
     \<lparr>is_block_design = False, X = Tensor [2, 1] [0, 1], Y = Tensor [2, 1] [1, 5]\<rparr>
     None None None (1 / 1000) PNone Map.empty =
     Inl (NotImplementedError ''Currently only block designs are supported.'') \<and>
   construct_inputs_qPI (Model (\<lambda>t. Inr t))
     \<lparr>is_block_design = False, X = Tensor [2, 1] [0, 1], Y = Tensor [2, 1] [1, 5]\<rparr>
     None None None (1 / 1000) (PFloat 7) Map.empty =
     Inr [''model'' \<mapsto> PModel (Model (\<lambda>t. Inr t)), ''objective'' \<mapsto> PNone,
          ''X_pending'' \<mapsto> PNone, ''sampler'' \<mapsto> PNone,
          ''tau'' \<mapsto> PFloat (1 / 1000), ''best_f'' \<mapsto> PFloat 7]"
proof -
  let ?m = "Model (\<lambda>t. Inr t)"
  let ?nb = "\<lparr>is_block_design = False, X = Tensor [2, 1] [0, 1 :: real], Y = Tensor [2, 1] [1, 5 :: real]\<rparr>"
  note t = not_block_design_fails [of ?nb None ?m True Map.empty None None "1 / 1000" 20 False
      "Tensor [1, 1] [4]" "PFloat 7"]
  have nb: "\<not> is_block_design ?nb" by simp
  from t nb have
    "construct_inputs_noisy_ei ?m ?nb 20 True Map.empty =
       Inl (NotImplementedError ''Currently only block designs are supported'')"
    "construct_inputs_qNEI ?m ?nb None None None None False Map.empty =
       Inl (NotImplementedError ''Currently only block designs are supported.'')"
    "construct_inputs_best_f ?m ?nb None True Map.empty =
       Inl (NotImplementedError ''Currently only block designs are supported.'')"
    "construct_inputs_qPI ?m ?nb None None None (1 / 1000) PNone Map.empty =
       Inl (NotImplementedError ''Currently only block designs are supported.'')"
    "construct_inputs_qPI ?m ?nb None None None (1 / 1000) (PFloat 7) Map.empty =
       Inr ((construct_inputs_mc_base ?m ?nb None None None Map.empty)
                 (''tau'' \<mapsto> PFloat (1 / 1000), ''best_f'' \<mapsto> PFloat 7))"
    by blast+
  then show ?thesis by (simp add: construct_inputs_mc_base_def py_opt_def)
qed

section \<open>Properties of the multi-fidelity base inputs\<close>

lemma key_set_default_weights:
  "key_set (map (\<lambda>f. (f, 1 :: real)) (map fst tf)) = key_set tf"
  by (simp add: key_set_def comp_def)

text \<open>
  Claim C6. \<^verbatim>\<open>construct_inputs_mf_base\<close> raises \<^verbatim>\<open>RuntimeError\<close> whenever the key set of
  \<^verbatim>\<open>fidelity_weights\<close> differs from the key set of \<^verbatim>\<open>target_fidelities\<close>. When the key
  sets are equal, and when \<^verbatim>\<open>fidelity_weights\<close> is omitted (then every target key gets
  the weight 1.0), it returns a bundle whose \<^verbatim>\<open>expand\<close> and \<^verbatim>\<open>project\<close> entries are the
  two lambdas; called on a tensor they run \<^verbatim>\<open>expand_trace_observations\<close> with the
  sorted target keys and the number of trace observations, and
  \<^verbatim>\<open>project_to_target_fidelity\<close> with the target fidelities.
\<close>

theorem mf_base_key_sets:
  "(key_set tf \<noteq> key_set fw \<longrightarrow>
      construct_inputs_mf_base mdl td tf (Some fw) ci nto ig =
        Inl (RuntimeErrorIndices (key_set tf) (key_set fw))) \<and>
   (key_set tf = key_set fw \<longrightarrow>
      construct_inputs_mf_base mdl td tf (Some fw) ci nto ig =
        Inr [''target_fidelities'' \<mapsto> PDict tf,
             ''cost_aware_utility'' \<mapsto>
                PUtility (InverseCostWeightedUtility (AffineFidelityCostModel fw ci)),
             ''expand'' \<mapsto> PClosure (Expand_lambda tf nto),
             ''project'' \<mapsto> PClosure (Project_lambda tf)]) \<and>
   construct_inputs_mf_base mdl td tf None ci nto ig =
     Inr [''target_fidelities'' \<mapsto> PDict tf,
          ''cost_aware_utility'' \<mapsto>
             PUtility (InverseCostWeightedUtility
               (AffineFidelityCostModel (map (\<lambda>f. (f, 1)) (map fst tf)) ci)),
          ''expand'' \<mapsto> PClosure (Expand_lambda tf nto),
          ''project'' \<mapsto> PClosure (Project_lambda tf)] \<and>
   call_closure ex pr (Expand_lambda tf nto) x = ex x (sorted_keys tf) nto \<and>
   call_closure ex pr (Project_lambda tf) x = pr x tf"
proof (intro conjI impI)
  assume "key_set tf \<noteq> key_set fw"
  then show "construct_inputs_mf_base mdl td tf (Some fw) ci nto ig =
        Inl (RuntimeErrorIndices (key_set tf) (key_set fw))"
    by (simp add: construct_inputs_mf_base_def)
next
  assume "key_set tf = key_set fw"
  then show "construct_inputs_mf_base mdl td tf (Some fw) ci nto ig =
        Inr [''target_fidelities'' \<mapsto> PDict tf,
             ''cost_aware_utility'' \<mapsto>
                PUtility (InverseCostWeightedUtility (AffineFidelityCostModel fw ci)),
             ''expand'' \<mapsto> PClosure (Expand_lambda tf nto),
             ''project'' \<mapsto> PClosure (Project_lambda tf)]"
    by (simp add: construct_inputs_mf_base_def)
next
  show "construct_inputs_mf_base mdl td tf None ci nto ig =
     Inr [''target_fidelities'' \<mapsto> PDict tf,
          ''cost_aware_utility'' \<mapsto>
             PUtility (InverseCostWeightedUtility
               (AffineFidelityCostModel (map (\<lambda>f. (f, 1)) (map fst tf)) ci)),
          ''expand'' \<mapsto> PClosure (Expand_lambda tf nto),
          ''project'' \<mapsto> PClosure (Project_lambda tf)]"
    using key_set_default_weights [of tf]
    by (simp add: construct_inputs_mf_base_def Let_def)
next
  show "call_closure ex pr (Expand_lambda tf nto) x = ex x (sorted_keys tf) nto" by simp
next
  show "call_closure ex pr (Project_lambda tf) x = pr x tf" by simp
qed

theorem mf_base_key_sets_witness:
  "construct_inputs_mf_base (Model (\<lambda>t. Inr t))
     \<lparr>is_block_design = True, X = Tensor [1, 2] [0, 1], Y = Tensor [1, 1] [1]\<rparr>
     [(0, 1), (1, 1)] (Some [(0, 1)]) 1 0 Map.empty =
     Inl (RuntimeErrorIndices {0, 1} {0}) \<and>
   construct_inputs_mf_base (Model (\<lambda>t. Inr t))
     \<lparr>is_block_design = True, X = Tensor [1, 2] [0, 1], Y = Tensor [1, 1] [1]\<rparr>
     [(1, 1), (0, 1)] (Some [(0, 2), (1, 3)]) 1 0 Map.empty =
     Inr [''target_fidelities'' \<mapsto> PDict [(1, 1), (0, 1)],
          ''cost_aware_utility'' \<mapsto>
             PUtility (InverseCostWeightedUtility (AffineFidelityCostModel [(0, 2), (1, 3)] 1)),
          ''expand'' \<mapsto> PClosure (Expand_lambda [(1, 1), (0, 1)] 0),
          ''project'' \<mapsto> PClosure (Project_lambda [(1, 1), (0, 1)])] \<and>
   call_closure (\<lambda>x dims n. Inr x) (\<lambda>x tf. Inr x) (Expand_lambda [(1, 1), (0, 1)] 0)
     (Tensor [1, 2] [0, 1]) = Inr (Tensor [1, 2] [0, 1])"
proof -
  let ?m = "Model (\<lambda>t. Inr t)"
  let ?td = "\<lparr>is_block_design = True, X = Tensor [1, 2] [0, 1 :: real], Y = Tensor [1, 1] [1 :: real]\<rparr>"
  note t1 = mf_base_key_sets [of "[(0, 1), (1, 1)]" "[(0, 1)]" ?m ?td 1 0 Map.empty
      "\<lambda>x dims n. Inr x" "\<lambda>x tf. Inr x" "Tensor [1, 2] [0, 1]"]
  note t2 = mf_base_key_sets [of "[(1, 1), (0, 1)]" "[(0, 2), (1, 3)]" ?m ?td 1 0 Map.empty
      "\<lambda>x dims n. Inr x" "\<lambda>x tf. Inr x" "Tensor [1, 2] [0, 1]"]
  have k1: "key_set [(0, 1 :: real), (1, 1)] \<noteq> key_set [(0, 1 :: real)]"
    by (simp add: key_set_def)
  have k2: "key_set [(1, 1 :: real), (0, 1)] = key_set [(0, 2 :: real), (1, 3)]"
    by (auto simp: key_set_def)
  have a: "construct_inputs_mf_base ?m ?td [(0, 1), (1, 1)] (Some [(0, 1)]) 1 0 Map.empty =
     Inl (RuntimeErrorIndices {0, 1} {0})"
    using t1 k1 by (simp add: key_set_def)
  have b: "construct_inputs_mf_base ?m ?td [(1, 1), (0, 1)] (Some [(0, 2), (1, 3)]) 1 0 Map.empty =
     Inr [''target_fidelities'' \<mapsto> PDict [(1, 1), (0, 1)],
          ''cost_aware_utility'' \<mapsto>
             PUtility (InverseCostWeightedUtility (AffineFidelityCostModel [(0, 2), (1, 3)] 1)),
          ''expand'' \<mapsto> PClosure (Expand_lambda [(1, 1), (0, 1)] 0),
          ''project'' \<mapsto> PClosure (Project_lambda [(1, 1), (0, 1)])]"
    using t2 k2 by blast
  have c: "call_closure (\<lambda>x dims n. Inr x) (\<lambda>x tf. Inr x) (Expand_lambda [(1, 1), (0, 1)] 0)
     (Tensor [1, 2] [0, 1]) = Inr (Tensor [1, 2] [0, 1])"
    using t2 by simp
  from a b c show ?thesis by blast
qed

section \<open>Properties of the hypervolume-improvement inputs\<close>

lemma construct_inputs_EHVI_run:
  assumes "shape_0 thr = Inr k"
    and "dict_get kw ''outcome_constraints'' PNone = PNone"
    and "ob = (case obj of None \<Rightarrow> IdentityAnalyticMultiOutputObjective | Some ob' \<Rightarrow> ob')"
    and "call ob thr = Inr rp"
    and "(dict_get kw ''Y_pmean'' PNone = PNone \<and> posterior_mean mdl (X td) = Inr yp) \<or>
         dict_get kw ''Y_pmean'' PNone = PTensor yp"
    and "call ob yp = Inr oy"
    and "py_gt_zero (dict_get kw ''alpha'' (PFloat (gdpa k))) = Inr pos"
  shows "construct_inputs_EHVI gdpa mdl td thr obj kw =
     Inr [''model'' \<mapsto> PModel mdl,
          ''ref_point'' \<mapsto> PTensor rp,
          ''partitioning'' \<mapsto> PPartitioning
             (if pos
              then NondominatedPartitioning rp oy (dict_get kw ''alpha'' (PFloat (gdpa k)))
              else FastNondominatedPartitioning rp oy),
          ''objective'' \<mapsto> PObjective ob]"
proof -
  have yp: "(case dict_get kw ''Y_pmean'' PNone of
               PNone \<Rightarrow>
                 (case posterior_mean mdl (X td) of
                    Inl e \<Rightarrow> Inl e
                  | Inr t \<Rightarrow> Inr (PTensor t))
             | v \<Rightarrow> Inr v) = Inr (PTensor yp)"
    using assms(5) by auto
  have ca: "call_any ob (PTensor yp) = Inr oy"
    using assms(6) by (simp add: call_any_def)
  show ?thesis
    unfolding construct_inputs_EHVI_def
    using assms(1,2,4,7) yp ca
    by (simp add: Let_def assms(3) [symmetric])
qed

text \<open>
  Claim C7. In \<^verbatim>\<open>construct_inputs_EHVI\<close>, on an input that passes its checks (no outcome
  constraints, thresholds with at least one dimension, the objective and the
  posterior defined on their arguments), the value \<open>alpha\<close> is the keyword argument
  of that name or else the default for the number of objectives. When \<open>alpha\<close> is the
  number 0 the partitioning is \<^verbatim>\<open>FastNondominatedPartitioning\<close>; when it is a number
  above 0 it is \<^verbatim>\<open>NondominatedPartitioning\<close> with that \<open>alpha\<close>. In both cases the
  reference point of the bundle, and of the partitioning, is the objective applied to
  the given thresholds. (A number below 0 also takes the exact path, and a request
  with outcome constraints raises.)
\<close>

theorem EHVI_partitioning_by_alpha:
  "(shape_0 thr = Inr k \<and>
    dict_get kw ''outcome_constraints'' PNone = PNone \<and>
    ob = (case obj of None \<Rightarrow> IdentityAnalyticMultiOutputObjective | Some ob' \<Rightarrow> ob') \<and>
    call ob thr = Inr rp \<and>
    ((dict_get kw ''Y_pmean'' PNone = PNone \<and> posterior_mean mdl (X td) = Inr yp) \<or>
     dict_get kw ''Y_pmean'' PNone = PTensor yp) \<and>
    call ob yp = Inr oy \<and>
    (dict_get kw ''alpha'' (PFloat (gdpa k)) = PFloat a \<or>
     (\<exists>i. dict_get kw ''alpha'' (PFloat (gdpa k)) = PInt i \<and> a = real_of_int i)) \<longrightarrow>
      (a = 0 \<longrightarrow>
         construct_inputs_EHVI gdpa mdl td thr obj kw =
           Inr [''model'' \<mapsto> PModel mdl,
                ''ref_point'' \<mapsto> PTensor rp,
                ''partitioning'' \<mapsto> PPartitioning (FastNondominatedPartitioning rp oy),
                ''objective'' \<mapsto> PObjective ob]) \<and>
      (0 < a \<longrightarrow>
         construct_inputs_EHVI gdpa mdl td thr obj kw =
           Inr [''model'' \<mapsto> PModel mdl,
                ''ref_point'' \<mapsto> PTensor rp,
                ''partitioning'' \<mapsto> PPartitioning
                   (NondominatedPartitioning rp oy (dict_get kw ''alpha'' (PFloat (gdpa k)))),
                ''objective'' \<mapsto> PObjective ob]) \<and>
      (a < 0 \<longrightarrow>
         construct_inputs_EHVI gdpa mdl td thr obj kw =
           Inr [''model'' \<mapsto> PModel mdl,
                ''ref_point'' \<mapsto> PTensor rp,
                ''partitioning'' \<mapsto> PPartitioning (FastNondominatedPartitioning rp oy),
                ''objective'' \<mapsto> PObjective ob])) \<and>
   (shape_0 thr = Inr k \<and> dict_get kw ''outcome_constraints'' PNone \<noteq> PNone \<longrightarrow>
      construct_inputs_EHVI gdpa mdl td thr obj kw =
        Inl (NotImplementedError ''EHVI does not yet support outcome constraints.''))"
proof (intro conjI impI)
  assume h: "shape_0 thr = Inr k \<and>
    dict_get kw ''outcome_constraints'' PNone = PNone \<and>
    ob = (case obj of None \<Rightarrow> IdentityAnalyticMultiOutputObjective | Some ob' \<Rightarrow> ob') \<and>
    call ob thr = Inr rp \<and>
    ((dict_get kw ''Y_pmean'' PNone = PNone \<and> posterior_mean mdl (X td) = Inr yp) \<or>
     dict_get kw ''Y_pmean'' PNone = PTensor yp) \<and>
    call ob yp = Inr oy \<and>
    (dict_get kw ''alpha'' (PFloat (gdpa k)) = PFloat a \<or>
     (\<exists>i. dict_get kw ''alpha'' (PFloat (gdpa k)) = PInt i \<and> a = real_of_int i))"
  then have gt: "py_gt_zero (dict_get kw ''alpha'' (PFloat (gdpa k))) = Inr (0 < a)"
    by (auto simp: py_gt_zero_def)
  from h have h1: "shape_0 thr = Inr k"
    and h2: "dict_get kw ''outcome_constraints'' PNone = PNone"
    and h3: "ob = (case obj of None \<Rightarrow> IdentityAnalyticMultiOutputObjective | Some ob' \<Rightarrow> ob')"
    and h4: "call ob thr = Inr rp"
    and h5: "(dict_get kw ''Y_pmean'' PNone = PNone \<and> posterior_mean mdl (X td) = Inr yp) \<or>
             dict_get kw ''Y_pmean'' PNone = PTensor yp"
    and h6: "call ob yp = Inr oy"
    by blast+
  note run = construct_inputs_EHVI_run [of thr k kw ob obj rp mdl td yp oy gdpa "0 < a",
      OF h1 h2 h3 h4 h5 h6 gt]
  {
    assume "a = 0"
    then show "construct_inputs_EHVI gdpa mdl td thr obj kw =
           Inr [''model'' \<mapsto> PModel mdl,
                ''ref_point'' \<mapsto> PTensor rp,
                ''partitioning'' \<mapsto> PPartitioning (FastNondominatedPartitioning rp oy),
                ''objective'' \<mapsto> PObjective ob]"
      using run by simp
  }
  {
    assume "0 < a"
    then show "construct_inputs_EHVI gdpa mdl td thr obj kw =
           Inr [''model'' \<mapsto> PModel mdl,
                ''ref_point'' \<mapsto> PTensor rp,
                ''partitioning'' \<mapsto> PPartitioning
                   (NondominatedPartitioning rp oy (dict_get kw ''alpha'' (PFloat (gdpa k)))),
                ''objective'' \<mapsto> PObjective ob]"
      using run by simp
  }
  {
    assume "a < 0"
    then show "construct_inputs_EHVI gdpa mdl td thr obj kw =
           Inr [''model'' \<mapsto> PModel mdl,
                ''ref_point'' \<mapsto> PTensor rp,
                ''partitioning'' \<mapsto> PPartitioning (FastNondominatedPartitioning rp oy),
                ''objective'' \<mapsto> PObjective ob]"
      using run by simp
  }
next
  assume "shape_0 thr = Inr k \<and> dict_get kw ''outcome_constraints'' PNone \<noteq> PNone"
  then show "construct_inputs_EHVI gdpa mdl td thr obj kw =
        Inl (NotImplementedError ''EHVI does not yet support outcome constraints.'')"
    by (simp add: construct_inputs_EHVI_def)
qed

theorem EHVI_partitioning_by_alpha_witness:
  "construct_inputs_EHVI (\<lambda>n. 0) (Model (\<lambda>t. Inr (Tensor [2, 2] [1, 2, 3, 4])))
     \<lparr>is_block_design = True, X = Tensor [2, 1] [0, 1], Y = Tensor [2, 2] [1, 5, 4, 2]\<rparr>
     (Tensor [2] [0, 1]) None [''alpha'' \<mapsto> PFloat 0] =
     Inr [''model'' \<mapsto> PModel (Model (\<lambda>t. Inr (Tensor [2, 2] [1, 2, 3, 4]))),
          ''ref_point'' \<mapsto> PTensor (Tensor [2] [0, 1]),
          ''partitioning'' \<mapsto> PPartitioning
             (FastNondominatedPartitioning (Tensor [2] [0, 1]) (Tensor [2, 2] [1, 2, 3, 4])),
          ''objective'' \<mapsto> PObjective IdentityAnalyticMultiOutputObjective] \<and>
   construct_inputs_EHVI (\<lambda>n. 0) (Model (\<lambda>t. Inr (Tensor [2, 2] [1, 2, 3, 4])))
     \<lparr>is_block_design = True, X = Tensor [2, 1] [0, 1], Y = Tensor [2, 2] [1, 5, 4, 2]\<rparr>
     (Tensor [2] [0, 1]) None [''alpha'' \<mapsto> PFloat (1 / 100)] =
     Inr [''model'' \<mapsto> PModel (Model (\<lambda>t. Inr (Tensor [2, 2] [1, 2, 3, 4]))),
          ''ref_point'' \<mapsto> PTensor (Tensor [2] [0, 1]),
          ''partitioning'' \<mapsto> PPartitioning
             (NondominatedPartitioning (Tensor [2] [0, 1]) (Tensor [2, 2] [1, 2, 3, 4])
                (PFloat (1 / 100))),
          ''objective'' \<mapsto> PObjective IdentityAnalyticMultiOutputObjective] \<and>
   construct_inputs_EHVI (\<lambda>n. 0) (Model (\<lambda>t. Inr (Tensor [2, 2] [1, 2, 3, 4])))
     \<lparr>is_block_design = True, X = Tensor [2, 1] [0, 1], Y = Tensor [2, 2] [1, 5, 4, 2]\<rparr>
     (Tensor [2] [0, 1]) None [''outcome_constraints'' \<mapsto> PObject 0] =
     Inl (NotImplementedError ''EHVI does not yet support outcome constraints.'')"
proof -
  let ?m = "Model (\<lambda>t. Inr (Tensor [2, 2] [1, 2, 3, 4]))"
  let ?td = "\<lparr>is_block_design = True, X = Tensor [2, 1] [0, 1 :: real], Y = Tensor [2, 2] [1, 5, 4, 2 :: real]\<rparr>"
  let ?thr = "Tensor [2] [0, 1 :: real]"
  let ?yp = "Tensor [2, 2] [1, 2, 3, 4 :: real]"
  let ?ob = "IdentityAnalyticMultiOutputObjective"
  note t1 = EHVI_partitioning_by_alpha [of ?thr 2 "[''alpha'' \<mapsto> PFloat 0]" ?ob None ?thr ?m ?td
      ?yp ?yp "\<lambda>n. 0" 0]
  note t2 = EHVI_partitioning_by_alpha [of ?thr 2 "[''alpha'' \<mapsto> PFloat (1 / 100)]" ?ob None ?thr
      ?m ?td ?yp ?yp "\<lambda>n. 0" "1 / 100"]
  note t3 = EHVI_partitioning_by_alpha [of ?thr 2 "[''outcome_constraints'' \<mapsto> PObject 0]" ?ob
      None ?thr ?m ?td ?yp ?yp "\<lambda>n. 0" 0]
  have c: "call ?ob ?thr = Inr ?thr" "call ?ob ?yp = Inr ?yp"
    by (simp_all add: IdentityAnalyticMultiOutputObjective_def)
  have s: "shape_0 ?thr = Inr 2" by (simp add: shape_0_def)
  have a: "construct_inputs_EHVI (\<lambda>n. 0) ?m ?td ?thr None [''alpha'' \<mapsto> PFloat 0] =
     Inr [''model'' \<mapsto> PModel ?m,
          ''ref_point'' \<mapsto> PTensor ?thr,
          ''partitioning'' \<mapsto> PPartitioning (FastNondominatedPartitioning ?thr ?yp),
          ''objective'' \<mapsto> PObjective ?ob]"
    using t1 c s by (simp add: dict_get_def)
  have b: "construct_inputs_EHVI (\<lambda>n. 0) ?m ?td ?thr None [''alpha'' \<mapsto> PFloat (1 / 100)] =
     Inr [''model'' \<mapsto> PModel ?m,
          ''ref_point'' \<mapsto> PTensor ?thr,
          ''partitioning'' \<mapsto> PPartitioning
             (NondominatedPartitioning ?thr ?yp (PFloat (1 / 100))),
          ''objective'' \<mapsto> PObjective ?ob]"
    using t2 c s by (simp add: dict_get_def)
  have d: "construct_inputs_EHVI (\<lambda>n. 0) ?m ?td ?thr None [''outcome_constraints'' \<mapsto> PObject 0] =
     Inl (NotImplementedError ''EHVI does not yet support outcome constraints.'')"
    using t3 s by (simp add: dict_get_def)
  from a b d show ?thesis by blast
qed

section \<open>Properties of the translation of linear constraints\<close>

lemma length_matrix_row:
  assumes "length (data A) = k * d" "i < k"
  shows "length (matrix_row A d i) = d"
proof -
  from assms(2) have "Suc i \<le> k" by simp
  then have "Suc i * d \<le> k * d" by (rule mult_le_mono1)
  then have "i * d + d \<le> length (data A)" using assms(1) by simp
  then show ?thesis by (simp add: matrix_row_def)
qed

lemma matrix_row_nth:
  assumes "length (data A) = k * d" "i < k" "j < d"
  shows "matrix_row A d i ! j = data A ! (i * d + j)"
proof -
  from assms(2) have "Suc i \<le> k" by simp
  then have "Suc i * d \<le> k * d" by (rule mult_le_mono1)
  then have "i * d + j < length (data A)" using assms(1,3) by simp
  then show ?thesis using assms(3) by (simp add: matrix_row_def)
qed

lemma data_nonzero:
  "data (squeeze_all (nonzero row)) = filter (\<lambda>j. row ! j \<noteq> 0) [0..<length row]"
  by (simp add: squeeze_all_def nonzero_def Let_def)

lemma data_coefficients:
  "data (neg (index_row row idx)) = map (\<lambda>j. - (row ! j)) (data idx)"
  by (simp add: neg_def index_row_def)

lemma sum_list_nonzero:
  fixes row x :: "real list"
  shows "sum_list (map (\<lambda>j. - (row ! j * x ! j)) (filter (\<lambda>j. row ! j \<noteq> 0) [0..<d])) =
         - (\<Sum>j<d. row ! j * x ! j)"
proof -
  have "sum_list (map (\<lambda>j. - (row ! j * x ! j)) (filter (\<lambda>j. row ! j \<noteq> 0) [0..<d])) =
        sum_list (map (\<lambda>j. - (row ! j * x ! j)) [0..<d])"
    by (rule sum_list_map_filter) simp
  also have "\<dots> = (\<Sum>j<d. - (row ! j * x ! j))"
    by (simp add: interv_sum_list_conv_sum_set_nat lessThan_atLeast0)
  also have "\<dots> = - (\<Sum>j<d. row ! j * x ! j)"
    by (simp add: sum_negf)
  finally show ?thesis .
qed

lemma satisfies_row:
  fixes row x :: "real list"
  assumes "length row = d"
  shows "satisfies (squeeze_all (nonzero row),
                    neg (index_row row (squeeze_all (nonzero row))),
                    Tensor [] [- bi]) x \<longleftrightarrow>
         (\<Sum>j<d. row ! j * x ! j) \<le> bi"
proof -
  let ?idx = "filter (\<lambda>j. row ! j \<noteq> 0) [0..<d]"
  have "map2 (*) (map (\<lambda>j. - (row ! j)) ?idx) (map (\<lambda>j. x ! j) ?idx) =
        map (\<lambda>j. - (row ! j * x ! j)) ?idx"
    by (simp add: map2_map_map)
  then have "satisfies (squeeze_all (nonzero row),
                    neg (index_row row (squeeze_all (nonzero row))),
                    Tensor [] [- bi]) x \<longleftrightarrow>
        - bi \<le> sum_list (map (\<lambda>j. - (row ! j * x ! j)) ?idx)"
    using assms by (simp add: satisfies_def data_nonzero data_coefficients)
  also have "\<dots> \<longleftrightarrow> - bi \<le> - (\<Sum>j<d. row ! j * x ! j)"
    by (simp only: sum_list_nonzero)
  also have "\<dots> \<longleftrightarrow> (\<Sum>j<d. row ! j * x ! j) \<le> bi"
    by simp
  finally show ?thesis .
qed

lemma item_i0_column:
  assumes "shape b = [k, 1]" "length (data b) = k" "i < k"
  shows "item_i0 b i = Inr (Tensor [] [data b ! i])"
proof -
  from assms have "drop i (data b) = data b ! i # drop (Suc i) (data b)"
    by (simp add: Cons_nth_drop_Suc)
  then show ?thesis using assms by (simp add: item_i0_def)
qed

lemma constraint_loop_rows:
  assumes "shape b = [k, 1]" "length (data b) = k" "\<forall>i \<in> set is. i < k"
  shows "constraint_loop A b d is = Inr (map (constraint_of_row A b d) is)"
  using assms(3)
proof (induction "is")
  case Nil
  then show ?case by simp
next
  case (Cons i "is")
  then have "i < k" by simp
  then have "item_i0 b i = Inr (Tensor [] [data b ! i])"
    using assms(1,2) by (simp add: item_i0_column)
  with Cons show ?case
    by (simp add: Let_def constraint_of_row_def neg_def)
qed

lemma inequality_constraints_of_matrix:
  assumes "shape A = [k, d]" "shape b = [k, 1]" "length (data b) = k"
  shows "inequality_constraints_of (Some (A, b)) =
         Inr (Some (map (constraint_of_row A b d) [0..<k]))"
  using assms constraint_loop_rows [of b k "[0..<k]" A d]
  by (simp add: inequality_constraints_of_def unpack2_def)

lemma constraint_of_row_data:
  assumes "length (data A) = k * d" "i < k"
  shows "data (fst (constraint_of_row A b d i)) =
           filter (\<lambda>j. data A ! (i * d + j) \<noteq> 0) [0..<d]"
    and "data (fst (snd (constraint_of_row A b d i))) =
           map (\<lambda>j. - (data A ! (i * d + j))) (data (fst (constraint_of_row A b d i)))"
    and "snd (snd (constraint_of_row A b d i)) = Tensor [] [- (data b ! i)]"
    and "satisfies (constraint_of_row A b d i) x \<longleftrightarrow>
           (\<Sum>j<d. data A ! (i * d + j) * x ! j) \<le> data b ! i"
proof -
  let ?row = "matrix_row A d i"
  have len: "length ?row = d" using assms by (rule length_matrix_row)
  have nth: "?row ! j = data A ! (i * d + j)" if "j < d" for j
    using assms that by (rule matrix_row_nth)
  have idx: "filter (\<lambda>j. ?row ! j \<noteq> 0) [0..<d] =
             filter (\<lambda>j. data A ! (i * d + j) \<noteq> 0) [0..<d]"
    by (rule filter_cong) (simp_all add: nth)
  show a: "data (fst (constraint_of_row A b d i)) =
           filter (\<lambda>j. data A ! (i * d + j) \<noteq> 0) [0..<d]"
    using idx len by (simp add: constraint_of_row_def data_nonzero)
  have "map (\<lambda>j. - (?row ! j)) (filter (\<lambda>j. data A ! (i * d + j) \<noteq> 0) [0..<d]) =
        map (\<lambda>j. - (data A ! (i * d + j))) (filter (\<lambda>j. data A ! (i * d + j) \<noteq> 0) [0..<d])"
    by (rule map_cong) (simp_all add: nth)
  then show "data (fst (snd (constraint_of_row A b d i))) =
           map (\<lambda>j. - (data A ! (i * d + j))) (data (fst (constraint_of_row A b d i)))"
    unfolding a by (simp add: constraint_of_row_def data_coefficients data_nonzero len idx)
  show "snd (snd (constraint_of_row A b d i)) = Tensor [] [- (data b ! i)]"
    by (simp add: constraint_of_row_def)
  have "satisfies (constraint_of_row A b d i) x \<longleftrightarrow> (\<Sum>j<d. ?row ! j * x ! j) \<le> data b ! i"
    unfolding constraint_of_row_def using len by (rule satisfies_row)
  also have "(\<Sum>j<d. ?row ! j * x ! j) = (\<Sum>j<d. data A ! (i * d + j) * x ! j)"
    by (rule sum.cong) (simp_all add: nth)
  finally show "satisfies (constraint_of_row A b d i) x \<longleftrightarrow>
           (\<Sum>j<d. data A ! (i * d + j) * x ! j) \<le> data b ! i" .
qed

lemma optimize_objective_args_constraints:
  assumes "optimize_objective_args mdl ob bounds q lc ff tf qmc mcs sd oo ppf bic sq ig = Inr args"
  shows "inequality_constraints_of lc = Inr (arg_inequality_constraints args)"
proof (cases "inequality_constraints_of lc")
  case (Inl e)
  with assms show ?thesis
    by (auto simp: optimize_objective_args_def Let_def split: sum.splits prod.splits)
next
  case (Inr cs)
  with assms show ?thesis
    by (auto simp: optimize_objective_args_def Let_def split: sum.splits prod.splits)
qed

text \<open>
  Claim C8. For a \<open>k \<times> d\<close> matrix \<open>A\<close> and a \<open>k \<times> 1\<close> vector \<open>b\<close>, the constraints that
  \<^verbatim>\<open>optimize_objective\<close> builds are a list of exactly \<open>k\<close> triples. The triple for row
  \<open>i\<close> holds the positions of the nonzero entries of row \<open>i\<close> of \<open>A\<close>, the negated
  entries at those positions, and the negated bound \<open>- b[i, 0]\<close>; read as
  \<^verbatim>\<open>sum(coefficients * x[indices]) >= bound\<close> it holds of a point \<open>x\<close> of dimension
  \<open>d\<close> exactly when \<open>A[i] . x \<le> b[i]\<close>. Without linear constraints the value is
  \<^verbatim>\<open>None\<close>. Whenever \<^verbatim>\<open>optimize_objective\<close> reaches the call of \<^verbatim>\<open>optimize_acqf\<close>, these
  are the \<^verbatim>\<open>inequality_constraints\<close> it passes.
\<close>

theorem linear_constraints_translation:
  "(shape A = [k, d] \<and> length (data A) = k * d \<and> shape b = [k, 1] \<and> length (data b) = k \<longrightarrow>
      (\<exists>cs. inequality_constraints_of (Some (A, b)) = Inr (Some cs) \<and> length cs = k \<and>
         (\<forall>i<k.
            data (fst (cs ! i)) = filter (\<lambda>j. data A ! (i * d + j) \<noteq> 0) [0..<d] \<and>
            data (fst (snd (cs ! i))) =
              map (\<lambda>j. - (data A ! (i * d + j))) (data (fst (cs ! i))) \<and>
            snd (snd (cs ! i)) = Tensor [] [- (data b ! i)] \<and>
            (\<forall>x. length x = d \<longrightarrow>
               (satisfies (cs ! i) x \<longleftrightarrow>
                  (\<Sum>j<d. data A ! (i * d + j) * x ! j) \<le> data b ! i))))) \<and>
   inequality_constraints_of None = Inr None \<and>
   (optimize_objective_args mdl ob bounds q lc ff tf qmc mcs sd oo ppf bic sq ig = Inr args \<longrightarrow>
      inequality_constraints_of lc = Inr (arg_inequality_constraints args)) \<and>
   optimize_objective optimize_acqf mdl ob bounds q lc ff tf qmc mcs sd oo ppf bic sq ig =
     (case optimize_objective_args mdl ob bounds q lc ff tf qmc mcs sd oo ppf bic sq ig of
        Inl e \<Rightarrow> Inl e
      | Inr args \<Rightarrow> optimize_acqf args)"
proof (intro conjI impI)
  assume h: "shape A = [k, d] \<and> length (data A) = k * d \<and> shape b = [k, 1] \<and> length (data b) = k"
  let ?cs = "map (constraint_of_row A b d) [0..<k]"
  from h have e: "inequality_constraints_of (Some (A, b)) = Inr (Some ?cs)"
    by (simp add: inequality_constraints_of_matrix)
  have "\<forall>i<k.
            data (fst (?cs ! i)) = filter (\<lambda>j. data A ! (i * d + j) \<noteq> 0) [0..<d] \<and>
            data (fst (snd (?cs ! i))) =
              map (\<lambda>j. - (data A ! (i * d + j))) (data (fst (?cs ! i))) \<and>
            snd (snd (?cs ! i)) = Tensor [] [- (data b ! i)] \<and>
            (\<forall>x. length x = d \<longrightarrow>
               (satisfies (?cs ! i) x \<longleftrightarrow>
                  (\<Sum>j<d. data A ! (i * d + j) * x ! j) \<le> data b ! i))"
  proof (intro allI impI)
    fix i assume i: "i < k"
    from h have la: "length (data A) = k * d" by simp
    from i have n: "?cs ! i = constraint_of_row A b d i" by simp
    show "data (fst (?cs ! i)) = filter (\<lambda>j. data A ! (i * d + j) \<noteq> 0) [0..<d] \<and>
            data (fst (snd (?cs ! i))) =
              map (\<lambda>j. - (data A ! (i * d + j))) (data (fst (?cs ! i))) \<and>
            snd (snd (?cs ! i)) = Tensor [] [- (data b ! i)] \<and>
            (\<forall>x. length x = d \<longrightarrow>
               (satisfies (?cs ! i) x \<longleftrightarrow>
                  (\<Sum>j<d. data A ! (i * d + j) * x ! j) \<le> data b ! i))"
      unfolding n using constraint_of_row_data [OF la i, of b] by blast
  qed
  with e show "\<exists>cs. inequality_constraints_of (Some (A, b)) = Inr (Some cs) \<and> length cs = k \<and>
         (\<forall>i<k.
            data (fst (cs ! i)) = filter (\<lambda>j. data A ! (i * d + j) \<noteq> 0) [0..<d] \<and>
            data (fst (snd (cs ! i))) =
              map (\<lambda>j. - (data A ! (i * d + j))) (data (fst (cs ! i))) \<and>
            snd (snd (cs ! i)) = Tensor [] [- (data b ! i)] \<and>
            (\<forall>x. length x = d \<longrightarrow>
               (satisfies (cs ! i) x \<longleftrightarrow>
                  (\<Sum>j<d. data A ! (i * d + j) * x ! j) \<le> data b ! i)))"
    by (intro exI [of _ ?cs]) simp
next
  show "inequality_constraints_of None = Inr None"
    by (simp add: inequality_constraints_of_def)
next
  assume "optimize_objective_args mdl ob bounds q lc ff tf qmc mcs sd oo ppf bic sq ig = Inr args"
  then show "inequality_constraints_of lc = Inr (arg_inequality_constraints args)"
    by (rule optimize_objective_args_constraints)
next
  show "optimize_objective optimize_acqf mdl ob bounds q lc ff tf qmc mcs sd oo ppf bic sq ig =
     (case optimize_objective_args mdl ob bounds q lc ff tf qmc mcs sd oo ppf bic sq ig of
        Inl e \<Rightarrow> Inl e
      | Inr args \<Rightarrow> optimize_acqf args)"
    by (simp add: optimize_objective_def)
qed

theorem linear_constraints_translation_witness:
  "inequality_constraints_of (Some (Tensor [2, 3] [1, 0, 2, 0, 0, 3], Tensor [2, 1] [4, 5])) =
     Inr (Some [(Tensor [2] [0, 2], Tensor [2] [- 1, - 2], Tensor [] [- 4]),
                (Tensor [] [2], Tensor [] [- 3], Tensor [] [- 5])]) \<and>
   satisfies (Tensor [2] [0, 2], Tensor [2] [- 1, - 2], Tensor [] [- 4]) [1, 1, 1] \<and>
   \<not> satisfies (Tensor [2] [0, 2], Tensor [2] [- 1, - 2], Tensor [] [- 4]) [5, 0, 0] \<and>
   optimize_objective_args (Model (\<lambda>t. Inr t)) (OtherObjective (\<lambda>t. Inr t))
     (Tensor [2, 3] [0, 0, 0, 1, 1, 1]) 1
     (Some (Tensor [2, 3] [1, 0, 2, 0, 0, 3], Tensor [2, 1] [4, 5]))
     None None True 512 None None PNone PNone False Map.empty =
     Inr \<lparr>arg_acq_function =
            Acqf PosteriorMean (Model (\<lambda>t. Inr t)) (OtherObjective (\<lambda>t. Inr t)) None,
          arg_bounds = Tensor [2, 3] [0, 0, 0, 1, 1, 1],
          arg_q = 1,
          arg_num_restarts = PInt 60,
          arg_raw_samples = PInt 1024,
          arg_options = [''batch_limit'' \<mapsto> PInt 8, ''maxiter'' \<mapsto> PInt 200,
                         ''nonnegative'' \<mapsto> PBool False, ''method'' \<mapsto> PStr ''L-BFGS-B''],
          arg_inequality_constraints =
            Some [(Tensor [2] [0, 2], Tensor [2] [- 1, - 2], Tensor [] [- 4]),
                  (Tensor [] [2], Tensor [] [- 3], Tensor [] [- 5])],
          arg_fixed_features = PNone,
          arg_post_processing_func = PNone,
          arg_batch_initial_conditions = PNone,
          arg_return_best_only = True,
          arg_sequential = False\<rparr>"
proof -
  let ?A = "Tensor [2, 3] [1, 0, 2, 0, 0, 3 :: real]"
  let ?b = "Tensor [2, 1] [4, 5 :: real]"
  let ?c0 = "(Tensor [2] [0, 2 :: nat], Tensor [2] [- 1, - 2 :: real], Tensor [] [- 4 :: real])"
  let ?c1 = "(Tensor [] [2 :: nat], Tensor [] [- 3 :: real], Tensor [] [- 5 :: real])"
  let ?m = "Model (\<lambda>t. Inr t)"
  let ?ob = "OtherObjective (\<lambda>t. Inr t)"
  let ?bounds = "Tensor [2, 3] [0, 0, 0, 1, 1, 1 :: real]"
  let ?args = "\<lparr>arg_acq_function = Acqf PosteriorMean ?m ?ob None,
          arg_bounds = ?bounds,
          arg_q = 1,
          arg_num_restarts = PInt 60,
          arg_raw_samples = PInt 1024,
          arg_options = [''batch_limit'' \<mapsto> PInt 8, ''maxiter'' \<mapsto> PInt 200,
                         ''nonnegative'' \<mapsto> PBool False, ''method'' \<mapsto> PStr ''L-BFGS-B''],
          arg_inequality_constraints = Some [?c0, ?c1],
          arg_fixed_features = PNone,
          arg_post_processing_func = PNone,
          arg_batch_initial_conditions = PNone,
          arg_return_best_only = True,
          arg_sequential = False\<rparr>"
  note t = linear_constraints_translation [of ?A 2 3 ?b ?m ?ob ?bounds 1 "Some (?A, ?b)"
      None None True 512 None None PNone PNone False Map.empty ?args "\<lambda>a. Inr (?bounds, ?bounds)"]
  have ev: "inequality_constraints_of (Some (?A, ?b)) = Inr (Some [?c0, ?c1])"
    by (simp add: inequality_constraints_of_def unpack2_def upt_rec numeral_2_eq_2 Let_def
        matrix_row_def nonzero_def squeeze_all_def index_row_def neg_def item_i0_def
        numeral_3_eq_3)
  from t obtain cs where cs: "inequality_constraints_of (Some (?A, ?b)) = Inr (Some cs)"
    and sat: "\<forall>i<2. \<forall>x. length x = 3 \<longrightarrow>
               (satisfies (cs ! i) x \<longleftrightarrow>
                  (\<Sum>j<3. data ?A ! (i * 3 + j) * x ! j) \<le> data ?b ! i)"
    by auto
  from cs ev have c: "cs = [?c0, ?c1]" by simp
  have s3: "{..<3 :: nat} = {0, 1, 2}" by auto
  from sat [rule_format, of 0 "[1, 1, 1]"] c
  have s1: "satisfies ?c0 [1, 1, 1]" by (simp add: s3)
  from sat [rule_format, of 0 "[5, 0, 0]"] c
  have s2: "\<not> satisfies ?c0 [5, 0, 0]" by (simp add: s3)
  have oa: "optimize_objective_args ?m ?ob ?bounds 1 (Some (?A, ?b))
     None None True 512 None None PNone PNone False Map.empty = Inr ?args"
    unfolding optimize_objective_args_def Let_def ev
    by (simp add: free_features_def dict_get_def)
  from ev s1 s2 oa show ?thesis by blast
qed

end
